theory Spec2Isabelle
  imports Complex_Main
begin

section \<open>hostd: process state tracking, hardware health verdicts, periodic runner\<close>

text \<open>
  A shallow embedding of the Go daemon \<^verbatim>\<open>hostd\<close>. The process monitor
  (\<^verbatim>\<open>getProcStatus\<close>, \<^verbatim>\<open>updateProcStatus\<close>), the three hardware units
  (\<^verbatim>\<open>NPU\<close>, \<^verbatim>\<open>PSU\<close>, \<^verbatim>\<open>Fan\<close>) and the periodic runner are translated function by
  function. What the Go code gets from outside (the output of \<^verbatim>\<open>pgrep\<close> and \<^verbatim>\<open>ps\<close>, the
  replies of Redis, the readings of \<^verbatim>\<open>time.Now()\<close>, the outcome of each \<^verbatim>\<open>select\<close>) is an
  explicit input of the model; what it changes (the Redis database, the log) is state that
  is passed through.
\<close>

subsection \<open>Data\<close>

text \<open>
  An instant (\<^verbatim>\<open>time.Time\<close>) is a number of nanoseconds, counted from the zero value of
  \<^verbatim>\<open>time.Time\<close>; a duration is a difference of instants.
  Go's \<^verbatim>\<open>int\<close> and \<^verbatim>\<open>int64\<close> are read as mathematical integers: the process monitor only
  compares and copies them.
\<close>

type_synonym time = int

record MemoryStats =
  MinMemory :: int
  MaxMemory :: int
  MinTimestamp :: time
  MaxTimestamp :: time

text \<open>\<^verbatim>\<open>PreviousPID\<close> is a \<^verbatim>\<open>*int\<close>: \<open>None\<close> is the nil pointer.\<close>

record ProcessStatus =
  Name :: string
  CurrentPID :: int
  PreviousPID :: "int option"
  Status :: string
  LastChange :: time
  MemoryStats :: MemoryStats
  CurrentMemory :: int

record Process =
  ProcName :: string
  Restart :: bool
  MaxRetries :: int

subsection \<open>The logger\<close>

text \<open>
  \<^verbatim>\<open>Logger.Critical\<close>, \<^verbatim>\<open>Logger.Error\<close> and \<^verbatim>\<open>Logger.Info\<close> write one line each. A line is
  kept as its level and a message; each format string of the source is one constructor,
  with the arguments that the format prints.
\<close>

datatype severity = CRITICAL | ERROR | INFO

datatype error =
    InvalidPidFormat
  | MemoryUsageError
  | MemoryParseError
  | StatusParseError
  | RedisNil
  | RedisUnavailable
  | MarshalError

datatype message =
    PidLookupFailed string error
  | StatusLookupFailed string error
  | MemoryLookupFailed string error
  | ProcessStopped string int
  | ProcessStarted string int
  | PidChanged string int int
  | NewMinimumMemory string int
  | NewMaximumMemory string int
  | MarshalFailed string error
  | RedisUpdateFailed string error
  | StatusLine string string int int
  | PeriodicCheck time
  | MetricsMarshalFailed string int error
  | MetricsStoreFailed string int error
  | NPUMetricsUpdated int real real real real
  | PSUMetricsUpdated int real real real
  | FanMetricsUpdated int int int

type_synonym log = "(severity \<times> message) list"

subsection \<open>Redis and JSON\<close>

text \<open>
  The database maps a key to the text stored under it. A stored text is kept as what
  \<^verbatim>\<open>json.Unmarshal\<close> makes of it: \<open>Encoded r\<close> is a text that decodes to the record
  \<open>r\<close>, \<open>Malformed\<close> a text that the decoder rejects. \<^verbatim>\<open>json.Marshal\<close> of a
  \<^verbatim>\<open>ProcessStatus\<close> does not fail and gives a text that decodes to the same record, so
  the error branch after it in \<^verbatim>\<open>updateProcStatus\<close> is never taken.

  A \<^verbatim>\<open>GET\<close> answers with the text, with the error \<^verbatim>\<open>redis.Nil\<close> when the key does not
  exist, or with another error when the server cannot be reached (\<open>get_down\<close>,
  \<open>set_down\<close> of the environment).
\<close>

datatype payload = Encoded ProcessStatus | Malformed

type_synonym redis = "string \<rightharpoonup> payload"

fun json_Unmarshal :: "payload \<Rightarrow> error + ProcessStatus" where
  "json_Unmarshal (Encoded r) = Inr r"
| "json_Unmarshal Malformed = Inl StatusParseError"

definition json_Marshal :: "ProcessStatus \<Rightarrow> error + payload" where
  "json_Marshal r = Inr (Encoded r)"

text \<open>
  The inputs of one call of \<^verbatim>\<open>updateProcStatus\<close>: the results of \<^verbatim>\<open>getProcessPID\<close> and
  of \<^verbatim>\<open>getProcessMemory\<close> (which run \<^verbatim>\<open>pgrep\<close> and \<^verbatim>\<open>ps\<close>), whether Redis fails on the
  read and on the write, and the reading of the clock at each call of \<^verbatim>\<open>time.Now()\<close>:
  the three of \<^verbatim>\<open>getProcStatus\<close>, the one at a PID change and the one of the memory
  update.
\<close>

record env =
  getProcessPID :: "error + int"
  getProcessMemory :: "error + int"
  get_down :: bool
  set_down :: bool
  now_unknown_change :: time
  now_unknown_min :: time
  now_unknown_max :: time
  now_change :: time
  now_memory :: time

definition process_key :: "string \<Rightarrow> string" where
  "process_key processName = ''process:'' @ processName @ '':status''"

definition GetProcessStatus :: "env \<Rightarrow> redis \<Rightarrow> string \<Rightarrow> error + payload" where
  "GetProcessStatus e db processName =
     (if get_down e then Inl RedisUnavailable
      else case db (process_key processName) of
             None \<Rightarrow> Inl RedisNil
           | Some data \<Rightarrow> Inr data)"

definition UpdateProcessStatus :: "env \<Rightarrow> redis \<Rightarrow> string \<Rightarrow> payload \<Rightarrow> error + redis" where
  "UpdateProcessStatus e db processName status =
     (if set_down e then Inl RedisUnavailable
      else Inr (db(process_key processName \<mapsto> status)))"

subsection \<open>The process monitor\<close>

text \<open>The record that \<^verbatim>\<open>getProcStatus\<close> makes up when the read returns an error.\<close>

definition unknownStatus :: "env \<Rightarrow> string \<Rightarrow> ProcessStatus" where
  "unknownStatus e processName =
     \<lparr>Name = processName, CurrentPID = 0, PreviousPID = None, Status = ''unknown'',
      LastChange = now_unknown_change e,
      MemoryStats = \<lparr>MinMemory = 0, MaxMemory = 0,
                     MinTimestamp = now_unknown_min e, MaxTimestamp = now_unknown_max e\<rparr>,
      CurrentMemory = 0\<rparr>"

definition getProcStatus :: "env \<Rightarrow> redis \<Rightarrow> string \<Rightarrow> error + ProcessStatus" where
  "getProcStatus e db processName =
     (case GetProcessStatus e db processName of
        Inl err \<Rightarrow> Inr (unknownStatus e processName)
      | Inr data \<Rightarrow>
          (case json_Unmarshal data of
             Inl err \<Rightarrow> Inl StatusParseError
           | Inr status \<Rightarrow> Inr status))"

text \<open>Lines 127 to 140: the status word and the memory sample.\<close>

definition sampleMemory :: "env \<Rightarrow> string \<Rightarrow> int \<Rightarrow> string \<times> int \<times> log" where
  "sampleMemory e name currentPID =
     (if currentPID > 0 then
        (case getProcessMemory e of
           Inl err \<Rightarrow> (''up'', 0, [(ERROR, MemoryLookupFailed name err)])
         | Inr mem \<Rightarrow> (''up'', mem, []))
      else (''down'', 0, []))"

text \<open>Lines 151 to 164: the PID change.\<close>

definition pidChange :: "env \<Rightarrow> ProcessStatus \<Rightarrow> ProcessStatus \<Rightarrow> ProcessStatus \<times> log" where
  "pidChange e currentStatus newStatus =
     (if CurrentPID newStatus \<noteq> CurrentPID currentStatus then
        (newStatus\<lparr>PreviousPID := Some (CurrentPID currentStatus), LastChange := now_change e\<rparr>,
         [if CurrentPID currentStatus > 0 \<and> CurrentPID newStatus = 0
            then (CRITICAL, ProcessStopped (Name newStatus) (CurrentPID currentStatus))
          else if CurrentPID currentStatus = 0 \<and> CurrentPID newStatus > 0
            then (INFO, ProcessStarted (Name newStatus) (CurrentPID newStatus))
          else (INFO, PidChanged (Name newStatus) (CurrentPID currentStatus) (CurrentPID newStatus))])
      else (newStatus\<lparr>PreviousPID := PreviousPID currentStatus\<rparr>, []))"

text \<open>Lines 166 to 181: the running minimum and maximum of the memory.\<close>

definition minUpdate :: "time \<Rightarrow> int \<Rightarrow> ProcessStatus \<Rightarrow> ProcessStatus \<times> log" where
  "minUpdate now currentMemory newStatus =
     (if MinMemory (MemoryStats newStatus) = 0 \<or> currentMemory < MinMemory (MemoryStats newStatus)
      then (newStatus\<lparr>MemoryStats := (MemoryStats newStatus)
                        \<lparr>MinMemory := currentMemory, MinTimestamp := now\<rparr>\<rparr>,
            [(INFO, NewMinimumMemory (Name newStatus) currentMemory)])
      else (newStatus, []))"

definition maxUpdate :: "time \<Rightarrow> int \<Rightarrow> ProcessStatus \<Rightarrow> ProcessStatus \<times> log" where
  "maxUpdate now currentMemory newStatus =
     (if currentMemory > MaxMemory (MemoryStats newStatus)
      then (newStatus\<lparr>MemoryStats := (MemoryStats newStatus)
                        \<lparr>MaxMemory := currentMemory, MaxTimestamp := now\<rparr>\<rparr>,
            [(INFO, NewMaximumMemory (Name newStatus) currentMemory)])
      else (newStatus, []))"

definition memoryUpdate :: "env \<Rightarrow> int \<Rightarrow> ProcessStatus \<Rightarrow> ProcessStatus \<times> log" where
  "memoryUpdate e currentMemory newStatus =
     (if currentMemory > 0 then
        (case minUpdate (now_memory e) currentMemory newStatus of
           (s1, l1) \<Rightarrow>
             (case maxUpdate (now_memory e) currentMemory s1 of
                (s2, l2) \<Rightarrow> (s2, l1 @ l2)))
      else (newStatus, []))"

text \<open>
  Lines 127 to 181 together: from the PID found and the record read, the record to
  store and the lines logged on the way.
\<close>

definition nextStatus :: "env \<Rightarrow> string \<Rightarrow> int \<Rightarrow> ProcessStatus \<Rightarrow> ProcessStatus \<times> log" where
  "nextStatus e name currentPID currentStatus =
     (case sampleMemory e name currentPID of
        (status, currentMemory, l0) \<Rightarrow>
          (case pidChange e currentStatus
                  \<lparr>Name = name, CurrentPID = currentPID, PreviousPID = None, Status = status,
                   LastChange = LastChange currentStatus,
                   MemoryStats = MemoryStats currentStatus,
                   CurrentMemory = currentMemory\<rparr> of
             (s1, l1) \<Rightarrow>
               (case memoryUpdate e currentMemory s1 of
                  (s2, l2) \<Rightarrow> (s2, l0 @ l1 @ l2))))"

text \<open>
  \<^verbatim>\<open>updateProcStatus\<close>: every early return of the source leaves the database as it was
  and logs one error line.
\<close>

definition updateProcStatus :: "env \<Rightarrow> Process \<Rightarrow> redis \<times> log \<Rightarrow> redis \<times> log" where
  "updateProcStatus e proc st =
     (case st of (db, lg) \<Rightarrow>
       (case getProcessPID e of
          Inl err \<Rightarrow> (db, lg @ [(ERROR, PidLookupFailed (ProcName proc) err)])
        | Inr currentPID \<Rightarrow>
           (case getProcStatus e db (ProcName proc) of
              Inl err \<Rightarrow> (db, lg @ [(ERROR, StatusLookupFailed (ProcName proc) err)])
            | Inr currentStatus \<Rightarrow>
               (case nextStatus e (ProcName proc) currentPID currentStatus of
                  (newStatus, l) \<Rightarrow>
                    (case json_Marshal newStatus of
                       Inl err \<Rightarrow> (db, lg @ l @ [(ERROR, MarshalFailed (ProcName proc) err)])
                     | Inr statusJSON \<Rightarrow>
                        (case UpdateProcessStatus e db (ProcName proc) statusJSON of
                           Inl err \<Rightarrow>
                             (db, lg @ l @ [(ERROR, RedisUpdateFailed (ProcName proc) err)])
                         | Inr db' \<Rightarrow>
                             (db', lg @ l @ [(INFO, StatusLine (ProcName proc) (Status newStatus)
                                                     currentPID (CurrentMemory newStatus))])))))))"

text \<open>The record that a call leaves stored for a process, if any.\<close>

definition stored :: "redis \<Rightarrow> string \<Rightarrow> payload option" where
  "stored db processName = db (process_key processName)"

text \<open>
  A run of observations of one process: \<^verbatim>\<open>updateProcStatus\<close> called once for each
  environment of the list, each call on the database that the call before left.
\<close>

definition runObservations :: "Process \<Rightarrow> env list \<Rightarrow> redis \<times> log \<Rightarrow> redis \<times> log" where
  "runObservations proc es st = foldl (\<lambda>st e. updateProcStatus e proc st) st es"

text \<open>The lines that one call adds to the log.\<close>

definition logged :: "env \<Rightarrow> Process \<Rightarrow> redis \<Rightarrow> log" where
  "logged e proc db = snd (updateProcStatus e proc (db, []))"

text \<open>The transition lines of a log: stopped, started, PID changed.\<close>

fun isTransition :: "severity \<times> message \<Rightarrow> bool" where
  "isTransition (s, ProcessStopped n p) = True"
| "isTransition (s, ProcessStarted n p) = True"
| "isTransition (s, PidChanged n p q) = True"
| "isTransition (s, m) = False"

definition transitions :: "log \<Rightarrow> log" where
  "transitions l = filter isTransition l"

text \<open>
  The memory sample of an observation, the value of \<^verbatim>\<open>currentMemory\<close> at line 142: 0
  unless a positive PID was found and \<^verbatim>\<open>getProcessMemory\<close> returned a value.
\<close>

definition sampledMemory :: "env \<Rightarrow> int" where
  "sampledMemory e =
     (case getProcessPID e of
        Inl err \<Rightarrow> 0
      | Inr pid \<Rightarrow>
          if pid > 0 then (case getProcessMemory e of Inl err \<Rightarrow> 0 | Inr mem \<Rightarrow> mem) else 0)"

text \<open>A stored record whose minimum is at most its maximum.\<close>

definition ordered :: "redis \<Rightarrow> string \<Rightarrow> bool" where
  "ordered db name =
     (case stored db name of
        Some (Encoded r) \<Rightarrow> MinMemory (MemoryStats r) \<le> MaxMemory (MemoryStats r)
      | _ \<Rightarrow> False)"

text \<open>A process, a stored record with some history and some environments, for examples.\<close>

definition nginx :: Process where
  "nginx = \<lparr>ProcName = ''nginx'', Restart = True, MaxRetries = 3\<rparr>"

definition history :: ProcessStatus where
  "history =
     \<lparr>Name = ''nginx'', CurrentPID = 4321, PreviousPID = Some 0, Status = ''up'',
      LastChange = 103,
      MemoryStats = \<lparr>MinMemory = 10485760, MaxMemory = 20971520,
                     MinTimestamp = 104, MaxTimestamp = 500\<rparr>,
      CurrentMemory = 12582912\<rparr>"

definition sample_at :: "time \<Rightarrow> int \<Rightarrow> int \<Rightarrow> env" where
  "sample_at t pid mem =
     \<lparr>getProcessPID = Inr pid, getProcessMemory = Inr mem, get_down = False, set_down = False,
      now_unknown_change = t, now_unknown_min = t + 1, now_unknown_max = t + 2,
      now_change = t + 3, now_memory = t + 4\<rparr>"

definition read_fails :: env where
  "read_fails = (sample_at 1000 4321 15728640)\<lparr>get_down := True\<rparr>"

subsection \<open>Hardware units\<close>

text \<open>
  \<^verbatim>\<open>float64\<close> fields are read as the real numbers they denote (no NaN, no infinity); a
  comparison of two such values is the comparison of the reals. The timestamp of a metrics
  record is the instant that \<^verbatim>\<open>time.Now().Format(time.RFC3339)\<close> prints.

  In the source, \<^verbatim>\<open>updateMetrics\<close> does not read any hardware yet: its first lines assign
  example values to the fields of the unit (``In a real implementation, this would read from
  hardware. For now, using example values''). The model takes the values that these lines
  assign as the parameter \<open>reading\<close>; \<open>npu_example\<close>, \<open>psu_example\<close> and
  \<open>fan_example\<close> are the values of the source. Everything after these lines is as in
  the source.
\<close>

datatype FruStatus = FruStatusGreen | FruStatusYellow | FruStatusRed

record NPUMetrics =
  PacketRate :: real
  Throughput :: real
  BufferUsage :: real
  ProcessorUsage :: real
  NPU_Timestamp :: time

record PSUMetrics =
  Voltage :: real
  Current :: real
  Power :: real
  PSU_Timestamp :: time

record FanMetrics =
  Speed :: int
  Duty :: int
  Fan_Timestamp :: time

record NPU =
  npu_name :: string
  packetRate :: real
  throughput :: real
  bufferUsage :: real
  processorUsage :: real
  npu_isPresent :: bool
  npu_instance :: int

record PSU =
  psu_name :: string
  voltage :: real
  current :: real
  power :: real
  psu_isPresent :: bool
  psu_instance :: int

record Fan =
  fan_name :: string
  speed :: int
  duty :: int
  fan_isPresent :: bool
  fan_instance :: int

text \<open>
  The metrics keys of Redis hold one kind of record each. \<^verbatim>\<open>json.Marshal\<close> does not fail on
  these records (the numbers are finite).
\<close>

datatype metrics = NPUJSON NPUMetrics | PSUJSON PSUMetrics | FanJSON FanMetrics

type_synonym hw_redis = "string \<rightharpoonup> metrics"

definition json_MarshalMetrics :: "metrics \<Rightarrow> error + metrics" where
  "json_MarshalMetrics m = Inr m"

record hw_env =
  hw_set_down :: bool
  hw_now :: time

text \<open>The verb \<^verbatim>\<open>%d\<close> of \<^verbatim>\<open>fmt\<close>: a decimal number, with a minus sign when negative.\<close>

fun digits :: "nat \<Rightarrow> string" where
  "digits n = (if n < 10 then [''0123456789'' ! n]
               else digits (n div 10) @ [''0123456789'' ! (n mod 10)])"

declare digits.simps [simp del]

definition itoa :: "int \<Rightarrow> string" where
  "itoa i = (if i < 0 then CHR ''-'' # digits (nat (- i)) else digits (nat i))"

definition npu_example :: "real \<times> real \<times> real \<times> real" where
  "npu_example = (1000000.0, 40.0, 60.0, 70.0)"

definition psu_example :: "real \<times> real \<times> real" where
  "psu_example = (12.0, 50.0, 600.0)"

definition fan_example :: "int \<times> int" where
  "fan_example = (2000, 60)"

definition npu_updateMetrics ::
  "hw_env \<Rightarrow> real \<times> real \<times> real \<times> real \<Rightarrow> NPU \<Rightarrow> hw_redis \<times> log
     \<Rightarrow> error option \<times> NPU \<times> hw_redis \<times> log" where
  "npu_updateMetrics e reading n st =
     (case (reading, st) of ((pr, tp, bu, pu), (db, lg)) \<Rightarrow>
        (let n' = n\<lparr>packetRate := pr, throughput := tp, bufferUsage := bu, processorUsage := pu\<rparr>;
             metrics = \<lparr>PacketRate = packetRate n', Throughput = throughput n',
                        BufferUsage = bufferUsage n', ProcessorUsage = processorUsage n',
                        NPU_Timestamp = hw_now e\<rparr>
         in case json_MarshalMetrics (NPUJSON metrics) of
              Inl err \<Rightarrow>
                (Some err, n', db, lg @ [(ERROR, MetricsMarshalFailed ''NPU'' (npu_instance n') err)])
            | Inr metricsJSON \<Rightarrow>
                if hw_set_down e
                then (Some RedisUnavailable, n', db,
                      lg @ [(ERROR, MetricsStoreFailed ''NPU'' (npu_instance n') RedisUnavailable)])
                else (None, n',
                      db(''hardware:npu:'' @ itoa (npu_instance n') @ '':metrics'' \<mapsto> metricsJSON),
                      lg @ [(INFO, NPUMetricsUpdated (npu_instance n') (packetRate n')
                                     (throughput n') (bufferUsage n') (processorUsage n'))])))"

definition npu_getStatus ::
  "hw_env \<Rightarrow> real \<times> real \<times> real \<times> real \<Rightarrow> NPU \<Rightarrow> hw_redis \<times> log
     \<Rightarrow> (FruStatus \<times> string option) \<times> NPU \<times> hw_redis \<times> log" where
  "npu_getStatus e reading n st =
     (if \<not> npu_isPresent n
      then ((FruStatusRed, Some (''NPU '' @ itoa (npu_instance n) @ '' not present'')), n, st)
      else case npu_updateMetrics e reading n st of
             (Some err, n', st') \<Rightarrow>
               ((FruStatusRed,
                 Some (''failed to update NPU '' @ itoa (npu_instance n') @ '' metrics'')), n', st')
           | (None, n', st') \<Rightarrow>
               if bufferUsage n' > 95 \<or> processorUsage n' > 95
                 then ((FruStatusRed, None), n', st')
               else if bufferUsage n' > 80 \<or> processorUsage n' > 85
                 then ((FruStatusYellow, None), n', st')
               else ((FruStatusGreen, None), n', st'))"

definition psu_updateMetrics ::
  "hw_env \<Rightarrow> real \<times> real \<times> real \<Rightarrow> PSU \<Rightarrow> hw_redis \<times> log
     \<Rightarrow> error option \<times> PSU \<times> hw_redis \<times> log" where
  "psu_updateMetrics e reading p st =
     (case (reading, st) of ((v, c, w), (db, lg)) \<Rightarrow>
        (let p' = p\<lparr>voltage := v, current := c, power := w\<rparr>;
             metrics = \<lparr>Voltage = voltage p', Current = current p', Power = power p',
                        PSU_Timestamp = hw_now e\<rparr>
         in case json_MarshalMetrics (PSUJSON metrics) of
              Inl err \<Rightarrow>
                (Some err, p', db, lg @ [(ERROR, MetricsMarshalFailed ''PSU'' (psu_instance p') err)])
            | Inr metricsJSON \<Rightarrow>
                if hw_set_down e
                then (Some RedisUnavailable, p', db,
                      lg @ [(ERROR, MetricsStoreFailed ''PSU'' (psu_instance p') RedisUnavailable)])
                else (None, p',
                      db(''hardware:psu:'' @ itoa (psu_instance p') @ '':metrics'' \<mapsto> metricsJSON),
                      lg @ [(INFO, PSUMetricsUpdated (psu_instance p') (voltage p')
                                     (current p') (power p'))])))"

definition psu_getStatus ::
  "hw_env \<Rightarrow> real \<times> real \<times> real \<Rightarrow> PSU \<Rightarrow> hw_redis \<times> log
     \<Rightarrow> (FruStatus \<times> string option) \<times> PSU \<times> hw_redis \<times> log" where
  "psu_getStatus e reading p st =
     (if \<not> psu_isPresent p
      then ((FruStatusRed, Some (''PSU '' @ itoa (psu_instance p) @ '' not present'')), p, st)
      else case psu_updateMetrics e reading p st of
             (Some err, p', st') \<Rightarrow>
               ((FruStatusRed,
                 Some (''failed to update PSU '' @ itoa (psu_instance p') @ '' metrics'')), p', st')
           | (None, p', st') \<Rightarrow>
               if voltage p' < 10.8 \<or> voltage p' > 13.2
                 then ((FruStatusRed, None), p', st')
               else if power p' > 800
                 then ((FruStatusYellow, None), p', st')
               else ((FruStatusGreen, None), p', st'))"

definition fan_updateMetrics ::
  "hw_env \<Rightarrow> int \<times> int \<Rightarrow> Fan \<Rightarrow> hw_redis \<times> log \<Rightarrow> error option \<times> Fan \<times> hw_redis \<times> log" where
  "fan_updateMetrics e reading f st =
     (case (reading, st) of ((sp, du), (db, lg)) \<Rightarrow>
        (let f' = f\<lparr>speed := sp, duty := du\<rparr>;
             metrics = \<lparr>Speed = speed f', Duty = duty f', Fan_Timestamp = hw_now e\<rparr>
         in case json_MarshalMetrics (FanJSON metrics) of
              Inl err \<Rightarrow>
                (Some err, f', db, lg @ [(ERROR, MetricsMarshalFailed ''fan'' (fan_instance f') err)])
            | Inr metricsJSON \<Rightarrow>
                if hw_set_down e
                then (Some RedisUnavailable, f', db,
                      lg @ [(ERROR, MetricsStoreFailed ''fan'' (fan_instance f') RedisUnavailable)])
                else (None, f',
                      db(''hardware:fan:'' @ itoa (fan_instance f') @ '':metrics'' \<mapsto> metricsJSON),
                      lg @ [(INFO, FanMetricsUpdated (fan_instance f') (speed f') (duty f'))])))"

definition fan_getStatus ::
  "hw_env \<Rightarrow> int \<times> int \<Rightarrow> Fan \<Rightarrow> hw_redis \<times> log
     \<Rightarrow> (FruStatus \<times> string option) \<times> Fan \<times> hw_redis \<times> log" where
  "fan_getStatus e reading f st =
     (if \<not> fan_isPresent f
      then ((FruStatusRed, Some (''fan '' @ itoa (fan_instance f) @ '' not present'')), f, st)
      else case fan_updateMetrics e reading f st of
             (Some err, f', st') \<Rightarrow>
               ((FruStatusRed,
                 Some (''failed to update fan '' @ itoa (fan_instance f') @ '' metrics'')), f', st')
           | (None, f', st') \<Rightarrow>
               if speed f' < 100
                 then ((FruStatusRed, None), f', st')
               else if duty f' > 90
                 then ((FruStatusYellow, None), f', st')
               else ((FruStatusGreen, None), f', st'))"

text \<open>Units as \<^verbatim>\<open>NewNPU\<close>, \<^verbatim>\<open>NewPSU\<close> and \<^verbatim>\<open>NewFan\<close> make them: present, nothing measured.\<close>

definition NewNPU :: "string \<Rightarrow> int \<Rightarrow> NPU" where
  "NewNPU name instance =
     \<lparr>npu_name = name, packetRate = 0, throughput = 0, bufferUsage = 0, processorUsage = 0,
      npu_isPresent = True, npu_instance = instance\<rparr>"

definition NewPSU :: "string \<Rightarrow> int \<Rightarrow> PSU" where
  "NewPSU name instance =
     \<lparr>psu_name = name, voltage = 0, current = 0, power = 0,
      psu_isPresent = True, psu_instance = instance\<rparr>"

definition NewFan :: "string \<Rightarrow> int \<Rightarrow> Fan" where
  "NewFan name instance =
     \<lparr>fan_name = name, speed = 0, duty = 0, fan_isPresent = True, fan_instance = instance\<rparr>"

definition redis_up :: hw_env where
  "redis_up = \<lparr>hw_set_down = False, hw_now = 2000\<rparr>"

subsection \<open>The periodic runner\<close>

text \<open>
  \<^verbatim>\<open>run\<close> is one goroutine: a loop around a \<^verbatim>\<open>select\<close> on \<^verbatim>\<open>ctx.Done()\<close> and on the
  channel of a ticker of one second. The model is given the list of the cases that the
  successive \<^verbatim>\<open>select\<close>s take: \<open>Done\<close>, or \<open>Tick t envs\<close> for a tick that carries the
  time \<open>t\<close>, where \<open>envs i\<close> is the environment of the call of \<^verbatim>\<open>updateProcStatus\<close>
  for the \<open>i\<close>-th process of the cycle. The mutex is taken and released inside one
  iteration by the only goroutine that uses it, and is left out. The result says whether
  \<^verbatim>\<open>run\<close> has returned (then the deferred \<^verbatim>\<open>wg.Done()\<close> lets \<^verbatim>\<open>Wait\<close> return) or is
  blocked in \<^verbatim>\<open>select\<close> with the list used up.
\<close>

record ProcessMonitor =
  processes :: "Process list"

record PeriodicRunner =
  monitor :: ProcessMonitor
  lastCheck :: time

definition NewPeriodicRunner :: "ProcessMonitor \<Rightarrow> PeriodicRunner" where
  "NewPeriodicRunner m = \<lparr>monitor = m, lastCheck = 0\<rparr>"

definition Second :: int where
  "Second = 1000000000"

definition Minute :: int where
  "Minute = 60 * Second"

definition tickerPeriod :: int where
  "tickerPeriod = 1 * Second"

text \<open>\<^verbatim>\<open>Time.Sub\<close> returns a \<^verbatim>\<open>Duration\<close>, an \<^verbatim>\<open>int64\<close>, and saturates.\<close>

definition maxDuration :: int where
  "maxDuration = 2 ^ 63 - 1"

definition minDuration :: int where
  "minDuration = - (2 ^ 63)"

definition Sub :: "time \<Rightarrow> time \<Rightarrow> int" where
  "Sub t u =
     (if t - u > maxDuration then maxDuration
      else if t - u < minDuration then minDuration
      else t - u)"

datatype selected = Done | Tick time "nat \<Rightarrow> env"

text \<open>The loop over \<^verbatim>\<open>pr.monitor.processes\<close>.\<close>

definition checkAll :: "(nat \<Rightarrow> env) \<Rightarrow> Process list \<Rightarrow> redis \<times> log \<Rightarrow> redis \<times> log" where
  "checkAll envs procs st =
     foldl (\<lambda>st (i, proc). updateProcStatus (envs i) proc st) st (enumerate 0 procs)"

text \<open>The case of a tick, lines 49 to 60.\<close>

definition onTick ::
  "time \<Rightarrow> (nat \<Rightarrow> env) \<Rightarrow> PeriodicRunner \<times> redis \<times> log \<Rightarrow> PeriodicRunner \<times> redis \<times> log" where
  "onTick currentTime envs s =
     (case s of (pr, db, lg) \<Rightarrow>
        if Sub currentTime (lastCheck pr) \<ge> Minute
        then (pr\<lparr>lastCheck := currentTime\<rparr>,
              checkAll envs (processes (monitor pr)) (db, lg @ [(INFO, PeriodicCheck currentTime)]))
        else (pr, db, lg))"

fun run ::
  "selected list \<Rightarrow> PeriodicRunner \<times> redis \<times> log \<Rightarrow> (PeriodicRunner \<times> redis \<times> log) \<times> bool" where
  "run [] s = (s, False)"
| "run (Done # rest) s = (s, True)"
| "run (Tick currentTime envs # rest) s = run rest (onTick currentTime envs s)"

text \<open>
  What a log tells about the cycles: the times of the lines ``Running periodic process
  check'', and the processes whose call of \<^verbatim>\<open>updateProcStatus\<close> came to its end. Every
  return of \<^verbatim>\<open>updateProcStatus\<close> is right after a line of its own: one of its four error
  lines, or the status line at the end.
\<close>

fun cycleTimes :: "log \<Rightarrow> time list" where
  "cycleTimes [] = []"
| "cycleTimes ((s, PeriodicCheck t) # l) = t # cycleTimes l"
| "cycleTimes (x # l) = cycleTimes l"

fun closes :: "severity \<times> message \<Rightarrow> string option" where
  "closes (s, PidLookupFailed n err) = Some n"
| "closes (s, StatusLookupFailed n err) = Some n"
| "closes (s, MarshalFailed n err) = Some n"
| "closes (s, RedisUpdateFailed n err) = Some n"
| "closes (s, StatusLine n st pid mem) = Some n"
| "closes (s, m) = None"

fun observed :: "log \<Rightarrow> string list" where
  "observed [] = []"
| "observed (x # l) = (case closes x of None \<Rightarrow> observed l | Some n \<Rightarrow> n # observed l)"

section \<open>Properties\<close>

subsection \<open>The record computed by one observation\<close>

lemma sampleMemory_status:
  "fst (sampleMemory e name pid) = (if 0 < pid then ''up'' else ''down'')"
  by (simp add: sampleMemory_def split: sum.splits)

lemma sampleMemory_sampled:
  "getProcessPID e = Inr pid \<Longrightarrow> fst (snd (sampleMemory e name pid)) = sampledMemory e"
  by (simp add: sampleMemory_def sampledMemory_def split: sum.splits)

lemma sampleMemory_positive:
  "0 < pid \<Longrightarrow> getProcessMemory e = Inr mem \<Longrightarrow> fst (snd (sampleMemory e name pid)) = mem"
  by (simp add: sampleMemory_def)

lemma sampleMemory_zero:
  "pid \<le> 0 \<or> getProcessMemory e = Inr 0 \<or> (\<exists>err. getProcessMemory e = Inl err) \<Longrightarrow>
   fst (snd (sampleMemory e name pid)) = 0"
  by (auto simp: sampleMemory_def)

lemma nextStatus_record:
  "fst (nextStatus e name pid prev) =
     fst (memoryUpdate e (fst (snd (sampleMemory e name pid)))
       (fst (pidChange e prev
           \<lparr>Name = name, CurrentPID = pid, PreviousPID = None,
            Status = fst (sampleMemory e name pid),
            LastChange = LastChange prev, MemoryStats = MemoryStats prev,
            CurrentMemory = fst (snd (sampleMemory e name pid))\<rparr>)))"
  by (simp add: nextStatus_def split: prod.splits)

lemma nextStatus_log:
  "snd (nextStatus e name pid prev) =
     snd (snd (sampleMemory e name pid)) @
     snd (pidChange e prev
           \<lparr>Name = name, CurrentPID = pid, PreviousPID = None,
            Status = fst (sampleMemory e name pid),
            LastChange = LastChange prev, MemoryStats = MemoryStats prev,
            CurrentMemory = fst (snd (sampleMemory e name pid))\<rparr>) @
     snd (memoryUpdate e (fst (snd (sampleMemory e name pid)))
           (fst (pidChange e prev
           \<lparr>Name = name, CurrentPID = pid, PreviousPID = None,
            Status = fst (sampleMemory e name pid),
            LastChange = LastChange prev, MemoryStats = MemoryStats prev,
            CurrentMemory = fst (snd (sampleMemory e name pid))\<rparr>)))"
  by (simp add: nextStatus_def split: prod.splits)

lemma memoryUpdate_fields:
  "Name (fst (memoryUpdate e m s)) = Name s"
  "CurrentPID (fst (memoryUpdate e m s)) = CurrentPID s"
  "PreviousPID (fst (memoryUpdate e m s)) = PreviousPID s"
  "Status (fst (memoryUpdate e m s)) = Status s"
  "LastChange (fst (memoryUpdate e m s)) = LastChange s"
  "CurrentMemory (fst (memoryUpdate e m s)) = CurrentMemory s"
  by (simp_all add: memoryUpdate_def minUpdate_def maxUpdate_def)

lemma memoryUpdate_stats:
  "MemoryStats (fst (memoryUpdate e m s)) =
     (if 0 < m then
        \<lparr>MinMemory = (if MinMemory (MemoryStats s) = 0 \<or> m < MinMemory (MemoryStats s)
                      then m else MinMemory (MemoryStats s)),
         MaxMemory = (if m > MaxMemory (MemoryStats s) then m else MaxMemory (MemoryStats s)),
         MinTimestamp = (if MinMemory (MemoryStats s) = 0 \<or> m < MinMemory (MemoryStats s)
                      then now_memory e else MinTimestamp (MemoryStats s)),
         MaxTimestamp = (if m > MaxMemory (MemoryStats s) then now_memory e
                      else MaxTimestamp (MemoryStats s))\<rparr>
      else MemoryStats s)"
  by (simp add: memoryUpdate_def minUpdate_def maxUpdate_def)

lemma pidChange_fields:
  "Name (fst (pidChange e prev s)) = Name s"
  "CurrentPID (fst (pidChange e prev s)) = CurrentPID s"
  "Status (fst (pidChange e prev s)) = Status s"
  "MemoryStats (fst (pidChange e prev s)) = MemoryStats s"
  "CurrentMemory (fst (pidChange e prev s)) = CurrentMemory s"
  "PreviousPID (fst (pidChange e prev s)) =
     (if CurrentPID s \<noteq> CurrentPID prev then Some (CurrentPID prev) else PreviousPID prev)"
  "LastChange (fst (pidChange e prev s)) =
     (if CurrentPID s \<noteq> CurrentPID prev then now_change e else LastChange s)"
  by (simp_all add: pidChange_def)

lemma nextStatus_fields:
  "Name (fst (nextStatus e name pid prev)) = name"
  "CurrentPID (fst (nextStatus e name pid prev)) = pid"
  "Status (fst (nextStatus e name pid prev)) = (if 0 < pid then ''up'' else ''down'')"
  "CurrentMemory (fst (nextStatus e name pid prev)) = fst (snd (sampleMemory e name pid))"
  "PreviousPID (fst (nextStatus e name pid prev)) =
     (if pid \<noteq> CurrentPID prev then Some (CurrentPID prev) else PreviousPID prev)"
  "LastChange (fst (nextStatus e name pid prev)) =
     (if pid \<noteq> CurrentPID prev then now_change e else LastChange prev)"
  by (simp_all add: nextStatus_record memoryUpdate_fields pidChange_fields sampleMemory_status)

lemma nextStatus_stats:
  "MemoryStats (fst (nextStatus e name pid prev)) =
     (if 0 < fst (snd (sampleMemory e name pid)) then
        \<lparr>MinMemory = (if MinMemory (MemoryStats prev) = 0
                          \<or> fst (snd (sampleMemory e name pid)) < MinMemory (MemoryStats prev)
                      then fst (snd (sampleMemory e name pid)) else MinMemory (MemoryStats prev)),
         MaxMemory = (if fst (snd (sampleMemory e name pid)) > MaxMemory (MemoryStats prev)
                      then fst (snd (sampleMemory e name pid)) else MaxMemory (MemoryStats prev)),
         MinTimestamp = (if MinMemory (MemoryStats prev) = 0
                          \<or> fst (snd (sampleMemory e name pid)) < MinMemory (MemoryStats prev)
                      then now_memory e else MinTimestamp (MemoryStats prev)),
         MaxTimestamp = (if fst (snd (sampleMemory e name pid)) > MaxMemory (MemoryStats prev)
                      then now_memory e else MaxTimestamp (MemoryStats prev))\<rparr>
      else MemoryStats prev)"
  by (simp add: nextStatus_record memoryUpdate_stats pidChange_fields)

subsection \<open>What one call stores and logs\<close>

lemma stored_updateProcStatus:
  "stored (fst (updateProcStatus e proc st)) (ProcName proc) =
     (case getProcessPID e of
        Inl err \<Rightarrow> stored (fst st) (ProcName proc)
      | Inr pid \<Rightarrow>
          (case getProcStatus e (fst st) (ProcName proc) of
             Inl err \<Rightarrow> stored (fst st) (ProcName proc)
           | Inr prev \<Rightarrow>
               if set_down e then stored (fst st) (ProcName proc)
               else Some (Encoded (fst (nextStatus e (ProcName proc) pid prev)))))"
  by (cases st)
     (simp add: updateProcStatus_def json_Marshal_def UpdateProcessStatus_def stored_def
      split: sum.splits prod.splits)

lemma getProcStatus_stored:
  "\<not> get_down e \<Longrightarrow> stored db name = Some (Encoded r) \<Longrightarrow> getProcStatus e db name = Inr r"
  by (simp add: getProcStatus_def GetProcessStatus_def stored_def)

lemma getProcStatus_absent:
  "\<not> get_down e \<Longrightarrow> stored db name = None \<Longrightarrow>
   getProcStatus e db name = Inr (unknownStatus e name)"
  by (simp add: getProcStatus_def GetProcessStatus_def stored_def)

lemma getProcStatus_malformed:
  "\<not> get_down e \<Longrightarrow> stored db name = Some Malformed \<Longrightarrow>
   getProcStatus e db name = Inl StatusParseError"
  by (simp add: getProcStatus_def GetProcessStatus_def stored_def)

lemma getProcStatus_down:
  "get_down e \<Longrightarrow> getProcStatus e db name = Inr (unknownStatus e name)"
  by (simp add: getProcStatus_def GetProcessStatus_def)

lemma updateProcStatus_log:
  "snd (updateProcStatus e proc st) = snd st @ logged e proc (fst st)"
  by (cases st)
     (simp add: updateProcStatus_def logged_def json_Marshal_def UpdateProcessStatus_def
      split: sum.splits prod.splits)

lemma logged_cases:
  "logged e proc db =
     (case getProcessPID e of
        Inl err \<Rightarrow> [(ERROR, PidLookupFailed (ProcName proc) err)]
      | Inr pid \<Rightarrow>
         (case getProcStatus e db (ProcName proc) of
            Inl err \<Rightarrow> [(ERROR, StatusLookupFailed (ProcName proc) err)]
          | Inr prev \<Rightarrow>
              snd (nextStatus e (ProcName proc) pid prev) @
              [if set_down e then (ERROR, RedisUpdateFailed (ProcName proc) RedisUnavailable)
               else (INFO, StatusLine (ProcName proc)
                       (Status (fst (nextStatus e (ProcName proc) pid prev))) pid
                       (CurrentMemory (fst (nextStatus e (ProcName proc) pid prev))))]))"
  by (simp add: logged_def updateProcStatus_def json_Marshal_def UpdateProcessStatus_def
      split: sum.splits prod.splits)

lemma runObservations_Nil: "runObservations proc [] st = st"
  by (simp add: runObservations_def)

lemma runObservations_Cons:
  "runObservations proc (e # es) st = runObservations proc es (updateProcStatus e proc st)"
  by (simp add: runObservations_def)

lemma runObservations_append:
  "runObservations proc (es @ es') st = runObservations proc es' (runObservations proc es st)"
  by (simp add: runObservations_def)

subsection \<open>First observation of a process\<close>

text \<open>
  C1. No record is stored for the process; \<^verbatim>\<open>pgrep\<close> finds PID 4321 and \<^verbatim>\<open>ps\<close> reports
  10485760 bytes; Redis answers the read and the write. The record that
  \<^verbatim>\<open>updateProcStatus\<close> stores has status \<^verbatim>\<open>up\<close>, current PID 4321, previous PID 0 (a
  pointer to 0, not nil), minimum and maximum memory 10485760, and both memory timestamps
  equal to the clock reading of the memory update.
\<close>

theorem first_observation:
  assumes "stored db (ProcName proc) = None"
    and "getProcessPID e = Inr 4321"
    and "getProcessMemory e = Inr 10485760"
    and "\<not> get_down e" and "\<not> set_down e"
  shows "stored (fst (updateProcStatus e proc (db, lg))) (ProcName proc) =
           Some (Encoded
             \<lparr>Name = ProcName proc, CurrentPID = 4321, PreviousPID = Some 0, Status = ''up'',
              LastChange = now_change e,
              MemoryStats = \<lparr>MinMemory = 10485760, MaxMemory = 10485760,
                             MinTimestamp = now_memory e, MaxTimestamp = now_memory e\<rparr>,
              CurrentMemory = 10485760\<rparr>)"
  using assms
  by (simp add: updateProcStatus_def getProcStatus_def GetProcessStatus_def stored_def
      unknownStatus_def nextStatus_def sampleMemory_def pidChange_def memoryUpdate_def
      minUpdate_def maxUpdate_def json_Marshal_def UpdateProcessStatus_def)

theorem first_observation_witness:
  "stored (fst (updateProcStatus (sample_at 100 4321 10485760) nginx (Map.empty, []))) ''nginx'' =
     Some (Encoded
       \<lparr>Name = ''nginx'', CurrentPID = 4321, PreviousPID = Some 0, Status = ''up'',
        LastChange = 103,
        MemoryStats = \<lparr>MinMemory = 10485760, MaxMemory = 10485760,
                       MinTimestamp = 104, MaxTimestamp = 104\<rparr>,
        CurrentMemory = 10485760\<rparr>)"
  using first_observation [of Map.empty nginx "sample_at 100 4321 10485760" "[]"]
  by (simp add: stored_def nginx_def sample_at_def)

subsection \<open>Transition lines\<close>

lemma transitions_append: "transitions (a @ b) = transitions a @ transitions b"
  by (simp add: transitions_def)

lemma transitions_sampleMemory:
  "transitions (snd (snd (sampleMemory e name pid))) = []"
  by (simp add: sampleMemory_def transitions_def split: sum.splits)

lemma transitions_memoryUpdate:
  "transitions (snd (memoryUpdate e m s)) = []"
  by (simp add: memoryUpdate_def minUpdate_def maxUpdate_def transitions_def)

lemma transitions_nextStatus:
  "transitions (snd (nextStatus e name pid prev)) =
     (if pid = CurrentPID prev then []
      else if CurrentPID prev > 0 \<and> pid = 0
        then [(CRITICAL, ProcessStopped name (CurrentPID prev))]
      else if CurrentPID prev = 0 \<and> pid > 0 then [(INFO, ProcessStarted name pid)]
      else [(INFO, PidChanged name (CurrentPID prev) pid)])"
  by (simp add: nextStatus_log transitions_append transitions_sampleMemory
      transitions_memoryUpdate) (simp add: pidChange_def transitions_def)

lemma transitions_logged:
  assumes "getProcessPID e = Inr pid" and "getProcStatus e db (ProcName proc) = Inr prev"
  shows "transitions (logged e proc db)
           = transitions (snd (nextStatus e (ProcName proc) pid prev))"
  using assms by (simp add: logged_cases transitions_append) (simp add: transitions_def)

text \<open>
  C2. An observation that found the PID \<open>pid\<close> and read the record \<open>prev\<close> (the stored
  one, or the one made up when the read returns an error) logs these transition lines, whatever
  else it logs and whether or not the write succeeds: from PID 0 to a positive PID, one
  ``started'' line at level INFO; from a positive PID to 0, one ``stopped'' line at level
  CRITICAL; between two different positive PIDs, one ``PID changed'' line at level INFO; with
  the PID unchanged, none.
\<close>

theorem transition_classification:
  assumes "getProcessPID e = Inr pid" and "getProcStatus e db (ProcName proc) = Inr prev"
  shows "(CurrentPID prev = 0 \<and> 0 < pid \<longrightarrow>
            transitions (logged e proc db) = [(INFO, ProcessStarted (ProcName proc) pid)])
       \<and> (0 < CurrentPID prev \<and> pid = 0 \<longrightarrow>
            transitions (logged e proc db)
              = [(CRITICAL, ProcessStopped (ProcName proc) (CurrentPID prev))])
       \<and> (0 < CurrentPID prev \<and> 0 < pid \<and> pid \<noteq> CurrentPID prev \<longrightarrow>
            transitions (logged e proc db)
              = [(INFO, PidChanged (ProcName proc) (CurrentPID prev) pid)])
       \<and> (pid = CurrentPID prev \<longrightarrow> transitions (logged e proc db) = [])"
  by (simp add: transitions_logged [OF assms] transitions_nextStatus)

theorem transition_classification_witness:
  "transitions (logged (sample_at 100 1234 4096) nginx Map.empty)
     = [(INFO, ProcessStarted ''nginx'' 1234)]
   \<and> transitions (logged (sample_at 100 0 0) nginx [process_key ''nginx'' \<mapsto> Encoded history])
     = [(CRITICAL, ProcessStopped ''nginx'' 4321)]
   \<and> transitions (logged (sample_at 100 5678 4096) nginx [process_key ''nginx'' \<mapsto> Encoded history])
     = [(INFO, PidChanged ''nginx'' 4321 5678)]
   \<and> transitions (logged (sample_at 100 4321 4096) nginx [process_key ''nginx'' \<mapsto> Encoded history])
     = []"
proof -
  have absent: "getProcStatus (sample_at 100 1234 4096) Map.empty (ProcName nginx)
                  = Inr (unknownStatus (sample_at 100 1234 4096) ''nginx'')"
    by (simp add: getProcStatus_def GetProcessStatus_def sample_at_def nginx_def)
  have present: "getProcStatus (sample_at 100 pid mem) [process_key ''nginx'' \<mapsto> Encoded history]
                   (ProcName nginx) = Inr history" for pid mem
    by (simp add: getProcStatus_def GetProcessStatus_def sample_at_def nginx_def)
  have pid: "getProcessPID (sample_at 100 pid mem) = Inr pid" for pid mem
    by (simp add: sample_at_def)
  from transition_classification [OF pid absent]
       transition_classification [OF pid present, of 0 0]
       transition_classification [OF pid present, of 5678 4096]
       transition_classification [OF pid present, of 4321 4096]
  show ?thesis by (simp add: unknownStatus_def history_def nginx_def)
qed

subsection \<open>A constant PID\<close>

lemma same_pid_step:
  assumes "getProcessPID e = Inr pid" and "\<not> get_down e"
    and "stored (fst st) (ProcName proc) = Some (Encoded r)" and "CurrentPID r = pid"
  shows "\<exists>r'. stored (fst (updateProcStatus e proc st)) (ProcName proc) = Some (Encoded r')
           \<and> CurrentPID r' = pid \<and> LastChange r' = LastChange r
           \<and> PreviousPID r' = PreviousPID r"
  using assms
  by (simp add: stored_updateProcStatus getProcStatus_stored nextStatus_fields)

lemma same_pid_run:
  assumes "\<forall>e \<in> set es. getProcessPID e = Inr pid \<and> \<not> get_down e"
    and "stored (fst st) (ProcName proc) = Some (Encoded r)" and "CurrentPID r = pid"
  shows "\<exists>r'. stored (fst (runObservations proc es st)) (ProcName proc) = Some (Encoded r')
           \<and> CurrentPID r' = pid \<and> LastChange r' = LastChange r
           \<and> PreviousPID r' = PreviousPID r"
  using assms
proof (induction es arbitrary: st r)
  case Nil
  then show ?case by (simp add: runObservations_Nil)
next
  case (Cons e es)
  from Cons.prems have e: "getProcessPID e = Inr pid" "\<not> get_down e" by simp_all
  from same_pid_step [OF e Cons.prems(2,3)]
  obtain r1 where r1:
    "stored (fst (updateProcStatus e proc st)) (ProcName proc) = Some (Encoded r1)"
    "CurrentPID r1 = pid" "LastChange r1 = LastChange r" "PreviousPID r1 = PreviousPID r"
    by blast
  from Cons.prems have rest: "\<forall>e \<in> set es. getProcessPID e = Inr pid \<and> \<not> get_down e"
    by simp
  from Cons.IH [OF rest r1(1,2)] r1(3,4) show ?case
    by (simp add: runObservations_Cons)
qed

text \<open>
  A run of observations of one process in which every observation finds the same PID and
  reads Redis without an error. Once the stored record carries that PID (after \<open>n\<close>
  observations), every later observation (after \<open>m \<ge> n\<close> of them) leaves a record with
  the same time of last change and the same previous PID. Writes may fail, and the memory may
  change.
\<close>

lemma constant_pid_with_reads:
  assumes "\<forall>e \<in> set es. getProcessPID e = Inr pid \<and> \<not> get_down e"
    and "n \<le> m" and "m \<le> length es"
    and "stored (fst (runObservations proc (take n es) st)) (ProcName proc) = Some (Encoded r)"
    and "CurrentPID r = pid"
  shows "\<exists>r'. stored (fst (runObservations proc (take m es) st)) (ProcName proc)
                 = Some (Encoded r')
           \<and> CurrentPID r' = pid \<and> LastChange r' = LastChange r
           \<and> PreviousPID r' = PreviousPID r"
proof -
  have split: "take m es = take n es @ take (m - n) (drop n es)"
    using assms(2) by (metis le_add_diff_inverse take_add)
  have "set (take (m - n) (drop n es)) \<subseteq> set es"
    by (meson in_set_dropD in_set_takeD subsetI)
  with assms(1)
  have later: "\<forall>e \<in> set (take (m - n) (drop n es)). getProcessPID e = Inr pid \<and> \<not> get_down e"
    by blast
  from same_pid_run [OF later assms(4,5)] show ?thesis
    by (simp add: split runObservations_append)
qed

text \<open>
  C3. The property: while the PID found stays the same positive PID, the time of last
  change and the previous PID of the record do not change after the transition into that PID.
  The code at a run that breaks it: the record stored for \<^verbatim>\<open>nginx\<close> has PID 4321, previous
  PID 1234 and time of last change 103; two observations find PID 4321. The first reads the
  record and stores it with the same time of last change and previous PID. In the second the read
  of Redis fails and the write succeeds: \<^verbatim>\<open>getProcStatus\<close> returns the made-up record with
  PID 0 (line 90 tests only \<^verbatim>\<open>err != nil\<close>), so the call takes the PID as changed and stores
  the time of last change 203 and the previous PID 0.
\<close>

theorem failed_read_moves_last_change:
  "stored [process_key ''nginx'' \<mapsto> Encoded (history\<lparr>PreviousPID := Some 1234\<rparr>)] ''nginx''
     = Some (Encoded
         \<lparr>Name = ''nginx'', CurrentPID = 4321, PreviousPID = Some 1234, Status = ''up'',
          LastChange = 103,
          MemoryStats = \<lparr>MinMemory = 10485760, MaxMemory = 20971520,
                         MinTimestamp = 104, MaxTimestamp = 500\<rparr>,
          CurrentMemory = 12582912\<rparr>)
   \<and> stored (fst (runObservations nginx [sample_at 100 4321 12582912]
        ([process_key ''nginx'' \<mapsto> Encoded (history\<lparr>PreviousPID := Some 1234\<rparr>)], [])))
        ''nginx''
     = Some (Encoded
         \<lparr>Name = ''nginx'', CurrentPID = 4321, PreviousPID = Some 1234, Status = ''up'',
          LastChange = 103,
          MemoryStats = \<lparr>MinMemory = 10485760, MaxMemory = 20971520,
                         MinTimestamp = 104, MaxTimestamp = 500\<rparr>,
          CurrentMemory = 12582912\<rparr>)
   \<and> stored (fst (runObservations nginx
        [sample_at 100 4321 12582912, (sample_at 200 4321 12582912)\<lparr>get_down := True\<rparr>]
        ([process_key ''nginx'' \<mapsto> Encoded (history\<lparr>PreviousPID := Some 1234\<rparr>)], [])))
        ''nginx''
     = Some (Encoded
         \<lparr>Name = ''nginx'', CurrentPID = 4321, PreviousPID = Some 0, Status = ''up'',
          LastChange = 203,
          MemoryStats = \<lparr>MinMemory = 12582912, MaxMemory = 12582912,
                         MinTimestamp = 204, MaxTimestamp = 204\<rparr>,
          CurrentMemory = 12582912\<rparr>)"
  by (simp add: runObservations_def updateProcStatus_def getProcStatus_def GetProcessStatus_def
      stored_def unknownStatus_def nextStatus_def sampleMemory_def pidChange_def
      memoryUpdate_def minUpdate_def maxUpdate_def json_Marshal_def UpdateProcessStatus_def
      nginx_def history_def sample_at_def)

subsection \<open>Minimum and maximum of the memory\<close>

lemma stats_ordered_after_positive:
  "0 < fst (snd (sampleMemory e name pid)) \<Longrightarrow>
   MinMemory (MemoryStats (fst (nextStatus e name pid prev)))
     \<le> MaxMemory (MemoryStats (fst (nextStatus e name pid prev)))"
  by (simp add: nextStatus_stats)

lemma stats_ordered_kept:
  "MinMemory (MemoryStats prev) \<le> MaxMemory (MemoryStats prev) \<Longrightarrow>
   MinMemory (MemoryStats (fst (nextStatus e name pid prev)))
     \<le> MaxMemory (MemoryStats (fst (nextStatus e name pid prev)))"
  by (simp add: nextStatus_stats)

lemma getProcStatus_wellformed:
  assumes "stored db name \<noteq> Some Malformed"
  shows "\<exists>prev. getProcStatus e db name = Inr prev
           \<and> (prev = unknownStatus e name \<or> stored db name = Some (Encoded prev))"
proof (cases "stored db name")
  case None
  then show ?thesis
    by (cases "get_down e") (simp_all add: getProcStatus_down getProcStatus_absent)
next
  case (Some p)
  with assms obtain r where "p = Encoded r" by (cases p) auto
  with Some show ?thesis
    by (cases "get_down e") (simp_all add: getProcStatus_down getProcStatus_stored)
qed

lemma ordered_unknown:
  "MinMemory (MemoryStats (unknownStatus e name)) \<le> MaxMemory (MemoryStats (unknownStatus e name))"
  by (simp add: unknownStatus_def)

lemma ordered_step:
  assumes "ordered (fst st) (ProcName proc)"
  shows "ordered (fst (updateProcStatus e proc st)) (ProcName proc)"
proof -
  from assms obtain r where r: "stored (fst st) (ProcName proc) = Some (Encoded r)"
    "MinMemory (MemoryStats r) \<le> MaxMemory (MemoryStats r)"
    by (auto simp: ordered_def split: option.splits payload.splits)
  then have "stored (fst st) (ProcName proc) \<noteq> Some Malformed" by simp
  from getProcStatus_wellformed [OF this, of e] obtain prev where
    prev: "getProcStatus e (fst st) (ProcName proc) = Inr prev"
      "prev = unknownStatus e (ProcName proc) \<or> prev = r"
    using r(1) by auto
  from prev(2) r(2) have "MinMemory (MemoryStats prev) \<le> MaxMemory (MemoryStats prev)"
    using ordered_unknown by blast
  then show ?thesis using assms prev(1)
    by (simp add: ordered_def stored_updateProcStatus stats_ordered_kept split: sum.splits)
qed

lemma positive_step:
  assumes "stored (fst st) (ProcName proc) \<noteq> Some Malformed"
    and "0 < sampledMemory e" and "\<not> set_down e"
  shows "ordered (fst (updateProcStatus e proc st)) (ProcName proc)"
proof -
  from assms(2) obtain pid where pid: "getProcessPID e = Inr pid"
    by (cases "getProcessPID e") (simp_all add: sampledMemory_def)
  from getProcStatus_wellformed [OF assms(1), of e] obtain prev where
    prev: "getProcStatus e (fst st) (ProcName proc) = Inr prev" by blast
  from pid assms(2) have "0 < fst (snd (sampleMemory e (ProcName proc) pid))"
    by (simp add: sampleMemory_sampled)
  from stats_ordered_after_positive [OF this] pid prev assms(3) show ?thesis
    by (simp add: ordered_def stored_updateProcStatus)
qed

lemma wellformed_step:
  assumes "stored (fst st) (ProcName proc) \<noteq> Some Malformed"
  shows "stored (fst (updateProcStatus e proc st)) (ProcName proc) \<noteq> Some Malformed"
  using assms by (simp add: stored_updateProcStatus split: sum.splits)

lemma ordered_run:
  assumes "ordered (fst st) (ProcName proc)"
  shows "ordered (fst (runObservations proc es st)) (ProcName proc)"
  using assms
  by (induction es arbitrary: st)
     (simp_all add: runObservations_Nil runObservations_Cons ordered_step)

lemma positive_run:
  assumes "stored (fst st) (ProcName proc) \<noteq> Some Malformed"
    and "\<exists>e \<in> set es. 0 < sampledMemory e \<and> \<not> set_down e"
  shows "ordered (fst (runObservations proc es st)) (ProcName proc)"
  using assms
proof (induction es arbitrary: st)
  case Nil
  then show ?case by simp
next
  case (Cons e es)
  show ?case
  proof (cases "0 < sampledMemory e \<and> \<not> set_down e")
    case True
    then have "ordered (fst (updateProcStatus e proc st)) (ProcName proc)"
      using positive_step [OF Cons.prems(1)] by blast
    then show ?thesis by (simp add: runObservations_Cons ordered_run)
  next
    case False
    with Cons.prems(2) have "\<exists>e \<in> set es. 0 < sampledMemory e \<and> \<not> set_down e" by auto
    from Cons.IH [OF wellformed_step [OF Cons.prems(1)] this]
    show ?thesis by (simp add: runObservations_Cons)
  qed
qed

text \<open>
  C4. A run of observations of one process, from a database whose record for the process,
  if there is one, can be decoded. After every observation such that a positive memory sample
  has been seen so far (in an observation that wrote its record), the stored record has
  its minimum at most its maximum. Nothing is assumed of the other observations: their reads and
  writes may fail, and the PID lookup too.
\<close>

theorem min_le_max_after_positive_sample:
  assumes "stored db (ProcName proc) \<noteq> Some Malformed"
  shows "\<forall>n \<le> length es.
           (\<exists>e \<in> set (take n es). 0 < sampledMemory e \<and> \<not> set_down e) \<longrightarrow>
           (\<exists>r. stored (fst (runObservations proc (take n es) (db, lg))) (ProcName proc)
                   = Some (Encoded r)
                \<and> MinMemory (MemoryStats r) \<le> MaxMemory (MemoryStats r))"
proof (intro allI impI)
  fix n
  assume "n \<le> length es"
    and pos: "\<exists>e \<in> set (take n es). 0 < sampledMemory e \<and> \<not> set_down e"
  from assms have "stored (fst (db, lg)) (ProcName proc) \<noteq> Some Malformed" by simp
  from positive_run [OF this pos]
  have "ordered (fst (runObservations proc (take n es) (db, lg))) (ProcName proc)" .
  then show "\<exists>r. stored (fst (runObservations proc (take n es) (db, lg))) (ProcName proc)
                   = Some (Encoded r)
                \<and> MinMemory (MemoryStats r) \<le> MaxMemory (MemoryStats r)"
    by (auto simp: ordered_def split: option.splits payload.splits)
qed

theorem min_le_max_after_positive_sample_witness:
  "\<exists>r. stored (fst (runObservations nginx
          (take 2 [sample_at 100 4321 8192, sample_at 200 4321 4096, sample_at 300 0 0])
          ([process_key ''nginx'' \<mapsto>
              Encoded (history\<lparr>MemoryStats := \<lparr>MinMemory = 900, MaxMemory = 500,
                                               MinTimestamp = 1, MaxTimestamp = 2\<rparr>\<rparr>)], [])))
        ''nginx'' = Some (Encoded r)
      \<and> MinMemory (MemoryStats r) \<le> MaxMemory (MemoryStats r)"
proof -
  let ?es = "[sample_at 100 4321 8192, sample_at 200 4321 4096, sample_at 300 0 0]"
  let ?db = "[process_key ''nginx'' \<mapsto>
              Encoded (history\<lparr>MemoryStats := \<lparr>MinMemory = 900, MaxMemory = 500,
                                               MinTimestamp = 1, MaxTimestamp = 2\<rparr>\<rparr>)]"
  have wf: "stored ?db (ProcName nginx) \<noteq> Some Malformed"
    by (simp add: stored_def nginx_def)
  have pos: "\<exists>e \<in> set (take 2 ?es). 0 < sampledMemory e \<and> \<not> set_down e"
    by (simp add: sample_at_def sampledMemory_def)
  have "\<exists>r. stored (fst (runObservations nginx (take 2 ?es) (?db, []))) (ProcName nginx)
            = Some (Encoded r)
          \<and> MinMemory (MemoryStats r) \<le> MaxMemory (MemoryStats r)"
    by (rule min_le_max_after_positive_sample [OF wf, rule_format, OF _ pos]) simp
  then show ?thesis by (simp add: nginx_def)
qed

lemma nextStatus_memory_lines:
  assumes "0 < pid" and "getProcessMemory e = Inr mem" and "0 < mem"
  shows "snd (nextStatus e name pid prev) =
     snd (pidChange e prev
           \<lparr>Name = name, CurrentPID = pid, PreviousPID = None, Status = ''up'',
            LastChange = LastChange prev, MemoryStats = MemoryStats prev, CurrentMemory = mem\<rparr>)
     @ (if MinMemory (MemoryStats prev) = 0 \<or> mem < MinMemory (MemoryStats prev)
        then [(INFO, NewMinimumMemory name mem)] else [])
     @ (if MaxMemory (MemoryStats prev) < mem then [(INFO, NewMaximumMemory name mem)] else [])"
  using assms
  by (simp add: nextStatus_def sampleMemory_def memoryUpdate_def minUpdate_def maxUpdate_def
      pidChange_def)

lemma pidChange_no_memory_line:
  "(INFO, NewMinimumMemory name mem) \<notin> set (snd (pidChange e prev s))"
  "(INFO, NewMaximumMemory name mem) \<notin> set (snd (pidChange e prev s))"
  by (simp_all add: pidChange_def)

lemma logged_found:
  assumes "getProcessPID e = Inr pid" and "getProcStatus e db (ProcName proc) = Inr prev"
  shows "set (logged e proc db) =
           set (snd (nextStatus e (ProcName proc) pid prev)) \<union>
           {if set_down e then (ERROR, RedisUpdateFailed (ProcName proc) RedisUnavailable)
            else (INFO, StatusLine (ProcName proc)
                    (Status (fst (nextStatus e (ProcName proc) pid prev))) pid
                    (CurrentMemory (fst (nextStatus e (ProcName proc) pid prev))))}"
  using assms by (simp add: logged_cases)

lemma stored_found:
  assumes "getProcessPID e = Inr pid" and "getProcStatus e db (ProcName proc) = Inr prev"
  shows "stored (fst (updateProcStatus e proc (db, lg))) (ProcName proc) =
           (if set_down e then stored db (ProcName proc)
            else Some (Encoded (fst (nextStatus e (ProcName proc) pid prev))))"
  using assms by (simp add: stored_updateProcStatus)

lemma nextStatus_zero_lines:
  assumes "pid \<le> 0 \<or> getProcessMemory e = Inr 0 \<or> (\<exists>err. getProcessMemory e = Inl err)"
  shows "(INFO, NewMinimumMemory name m) \<notin> set (snd (nextStatus e name pid prev))"
    and "(INFO, NewMaximumMemory name m) \<notin> set (snd (nextStatus e name pid prev))"
  using sampleMemory_zero [OF assms, of name]
  by (auto simp: nextStatus_log memoryUpdate_def pidChange_def sampleMemory_def
      split: sum.splits if_splits)

text \<open>
  C5. An observation that found the PID \<open>pid\<close> and read the record \<open>prev\<close>, whose
  memory statistics \<open>old\<close> are the ones that line 147 copies (when the read succeeds they
  are those of the stored record; with no record stored the minimum is 0). With a positive
  memory sample \<open>mem\<close>: the call logs ``New minimum memory'' exactly when the minimum of
  \<open>old\<close> is 0 or \<open>mem\<close> is below it, and ``New maximum memory'' exactly when \<open>mem\<close>
  is above the maximum of \<open>old\<close>; when the write succeeds, the record stored has \<open>mem\<close>
  and the clock reading as minimum and its timestamp in exactly the first case and those of
  \<open>old\<close> otherwise, and likewise for the maximum in the second case; in particular a
  minimum of 0 is replaced by any positive sample. With a zero sample (no running process, a
  failed memory lookup, or a reading of 0) neither line is logged and the record stored has
  the statistics \<open>old\<close>. When the write fails, the stored record is left as it was.
\<close>

theorem memory_extrema_update:
  fixes e :: env and proc :: Process and pid mem :: int and prev :: ProcessStatus
    and db :: redis and lg :: log
  assumes "getProcessPID e = Inr pid" and "getProcStatus e db (ProcName proc) = Inr prev"
  defines "old \<equiv> MemoryStats prev"
    and "lines \<equiv> set (logged e proc db)"
    and "after \<equiv> stored (fst (updateProcStatus e proc (db, lg))) (ProcName proc)"
  shows "(0 < pid \<and> getProcessMemory e = Inr mem \<and> 0 < mem \<longrightarrow>
            ((INFO, NewMinimumMemory (ProcName proc) mem) \<in> lines
                \<longleftrightarrow> MinMemory old = 0 \<or> mem < MinMemory old)
          \<and> ((INFO, NewMaximumMemory (ProcName proc) mem) \<in> lines \<longleftrightarrow> MaxMemory old < mem)
          \<and> (\<not> set_down e \<longrightarrow>
                (\<exists>r. after = Some (Encoded r)
                   \<and> (MinMemory (MemoryStats r), MinTimestamp (MemoryStats r)) =
                       (if MinMemory old = 0 \<or> mem < MinMemory old then (mem, now_memory e)
                        else (MinMemory old, MinTimestamp old))
                   \<and> (MaxMemory (MemoryStats r), MaxTimestamp (MemoryStats r)) =
                       (if MaxMemory old < mem then (mem, now_memory e)
                        else (MaxMemory old, MaxTimestamp old))
                   \<and> (MinMemory old = 0 \<longrightarrow> MinMemory (MemoryStats r) = mem))))
       \<and> (pid \<le> 0 \<or> getProcessMemory e = Inr 0 \<or> (\<exists>err. getProcessMemory e = Inl err) \<longrightarrow>
            (\<forall>m. (INFO, NewMinimumMemory (ProcName proc) m) \<notin> lines
                 \<and> (INFO, NewMaximumMemory (ProcName proc) m) \<notin> lines)
          \<and> (\<not> set_down e \<longrightarrow> (\<exists>r. after = Some (Encoded r) \<and> MemoryStats r = old)))
       \<and> (set_down e \<longrightarrow> after = stored db (ProcName proc))
       \<and> (\<not> get_down e \<and> stored db (ProcName proc) = Some (Encoded r0) \<longrightarrow>
            old = MemoryStats r0)
       \<and> (\<not> get_down e \<and> stored db (ProcName proc) = None \<longrightarrow> MinMemory old = 0)"
proof -
  let ?n = "ProcName proc"
  let ?r = "fst (nextStatus e ?n pid prev)"
  have lines: "lines = set (snd (nextStatus e ?n pid prev)) \<union>
           {if set_down e then (ERROR, RedisUpdateFailed ?n RedisUnavailable)
            else (INFO, StatusLine ?n (Status ?r) pid (CurrentMemory ?r))}"
    unfolding lines_def by (rule logged_found [OF assms(1,2)])
  have after: "after = (if set_down e then stored db ?n else Some (Encoded ?r))"
    unfolding after_def by (rule stored_found [OF assms(1,2)])
  have pos: "0 < pid \<and> getProcessMemory e = Inr mem \<and> 0 < mem \<longrightarrow>
            ((INFO, NewMinimumMemory ?n mem) \<in> lines
                \<longleftrightarrow> MinMemory old = 0 \<or> mem < MinMemory old)
          \<and> ((INFO, NewMaximumMemory ?n mem) \<in> lines \<longleftrightarrow> MaxMemory old < mem)
          \<and> (MinMemory (MemoryStats ?r), MinTimestamp (MemoryStats ?r)) =
                       (if MinMemory old = 0 \<or> mem < MinMemory old then (mem, now_memory e)
                        else (MinMemory old, MinTimestamp old))
          \<and> (MaxMemory (MemoryStats ?r), MaxTimestamp (MemoryStats ?r)) =
                       (if MaxMemory old < mem then (mem, now_memory e)
                        else (MaxMemory old, MaxTimestamp old))
          \<and> (MinMemory old = 0 \<longrightarrow> MinMemory (MemoryStats ?r) = mem)"
  proof (intro impI)
    assume p: "0 < pid \<and> getProcessMemory e = Inr mem \<and> 0 < mem"
    then have m: "fst (snd (sampleMemory e ?n pid)) = mem" by (simp add: sampleMemory_positive)
    from p have l: "snd (nextStatus e ?n pid prev) =
       snd (pidChange e prev
           \<lparr>Name = ?n, CurrentPID = pid, PreviousPID = None, Status = ''up'',
            LastChange = LastChange prev, MemoryStats = MemoryStats prev, CurrentMemory = mem\<rparr>)
       @ (if MinMemory (MemoryStats prev) = 0 \<or> mem < MinMemory (MemoryStats prev)
          then [(INFO, NewMinimumMemory ?n mem)] else [])
       @ (if MaxMemory (MemoryStats prev) < mem then [(INFO, NewMaximumMemory ?n mem)] else [])"
      by (simp add: nextStatus_memory_lines)
    show "((INFO, NewMinimumMemory ?n mem) \<in> lines
                \<longleftrightarrow> MinMemory old = 0 \<or> mem < MinMemory old)
          \<and> ((INFO, NewMaximumMemory ?n mem) \<in> lines \<longleftrightarrow> MaxMemory old < mem)
          \<and> (MinMemory (MemoryStats ?r), MinTimestamp (MemoryStats ?r)) =
                       (if MinMemory old = 0 \<or> mem < MinMemory old then (mem, now_memory e)
                        else (MinMemory old, MinTimestamp old))
          \<and> (MaxMemory (MemoryStats ?r), MaxTimestamp (MemoryStats ?r)) =
                       (if MaxMemory old < mem then (mem, now_memory e)
                        else (MaxMemory old, MaxTimestamp old))
          \<and> (MinMemory old = 0 \<longrightarrow> MinMemory (MemoryStats ?r) = mem)"
      using p unfolding old_def
      by (simp add: lines l pidChange_no_memory_line nextStatus_stats m)
  qed
  have zero: "pid \<le> 0 \<or> getProcessMemory e = Inr 0 \<or> (\<exists>err. getProcessMemory e = Inl err) \<longrightarrow>
            (\<forall>m. (INFO, NewMinimumMemory ?n m) \<notin> lines \<and> (INFO, NewMaximumMemory ?n m) \<notin> lines)
          \<and> MemoryStats ?r = old"
  proof (intro impI)
    assume z: "pid \<le> 0 \<or> getProcessMemory e = Inr 0 \<or> (\<exists>err. getProcessMemory e = Inl err)"
    show "(\<forall>m. (INFO, NewMinimumMemory ?n m) \<notin> lines \<and> (INFO, NewMaximumMemory ?n m) \<notin> lines)
          \<and> MemoryStats ?r = old"
      unfolding old_def
      by (simp add: lines nextStatus_zero_lines [OF z] nextStatus_stats sampleMemory_zero [OF z])
  qed
  have read: "\<not> get_down e \<and> stored db ?n = Some (Encoded r0) \<longrightarrow> old = MemoryStats r0"
    using assms(2) unfolding old_def by (auto simp: getProcStatus_stored)
  have absent: "\<not> get_down e \<and> stored db ?n = None \<longrightarrow> MinMemory old = 0"
    using assms(2) unfolding old_def by (auto simp: getProcStatus_absent unknownStatus_def)
  from pos zero read absent show ?thesis by (simp add: after)
qed


theorem memory_extrema_update_witness:
  "(INFO, NewMinimumMemory ''nginx'' 5242880)
      \<in> set (logged (sample_at 600 4321 5242880) nginx [process_key ''nginx'' \<mapsto> Encoded history])
   \<and> (INFO, NewMaximumMemory ''nginx'' 5242880)
      \<notin> set (logged (sample_at 600 4321 5242880) nginx [process_key ''nginx'' \<mapsto> Encoded history])
   \<and> (\<exists>r. stored (fst (updateProcStatus (sample_at 600 4321 5242880) nginx
                ([process_key ''nginx'' \<mapsto> Encoded history], []))) ''nginx'' = Some (Encoded r)
          \<and> (MinMemory (MemoryStats r), MinTimestamp (MemoryStats r)) = (5242880, 604)
          \<and> (MaxMemory (MemoryStats r), MaxTimestamp (MemoryStats r)) = (20971520, 500))
   \<and> (\<exists>r. stored (fst (updateProcStatus (sample_at 600 0 0) nginx
                ([process_key ''nginx'' \<mapsto> Encoded history], []))) ''nginx'' = Some (Encoded r)
          \<and> MemoryStats r = MemoryStats history)"
proof -
  let ?db = "[process_key ''nginx'' \<mapsto> Encoded history]"
  have n: "ProcName nginx = ''nginx''" by (simp add: nginx_def)
  have pid: "getProcessPID (sample_at 600 p m) = Inr p" for p m
    by (simp add: sample_at_def)
  have rd: "getProcStatus (sample_at 600 p m) ?db (ProcName nginx) = Inr history" for p m
    by (simp add: getProcStatus_def GetProcessStatus_def sample_at_def nginx_def)
  have env: "getProcessMemory (sample_at 600 p m) = Inr m" "\<not> set_down (sample_at 600 p m)"
    "now_memory (sample_at 600 p m) = 604" for p m
    by (simp_all add: sample_at_def)
  have old: "MinMemory (MemoryStats history) = 10485760" "MaxMemory (MemoryStats history) = 20971520"
    "MinTimestamp (MemoryStats history) = 104" "MaxTimestamp (MemoryStats history) = 500"
    by (simp_all add: history_def)
  from memory_extrema_update [OF pid rd, where mem = 5242880 and lg = "[]"]
  have a: "(INFO, NewMinimumMemory ''nginx'' 5242880) \<in> set (logged (sample_at 600 4321 5242880) nginx ?db)"
    and b: "(INFO, NewMaximumMemory ''nginx'' 5242880) \<notin> set (logged (sample_at 600 4321 5242880) nginx ?db)"
    and c: "\<exists>r. stored (fst (updateProcStatus (sample_at 600 4321 5242880) nginx (?db, []))) ''nginx''
                  = Some (Encoded r)
          \<and> (MinMemory (MemoryStats r), MinTimestamp (MemoryStats r)) = (5242880, 604)
          \<and> (MaxMemory (MemoryStats r), MaxTimestamp (MemoryStats r)) = (20971520, 500)"
    by (simp_all add: n env old)
  from memory_extrema_update [OF pid rd, where mem = 0 and lg = "[]"]
  have d: "\<exists>r. stored (fst (updateProcStatus (sample_at 600 0 0) nginx (?db, []))) ''nginx''
                  = Some (Encoded r) \<and> MemoryStats r = MemoryStats history"
    by (simp add: n env)
  from a b c d show ?thesis by blast
qed

subsection \<open>The same sample twice\<close>

lemma nextStatus_twice:
  assumes "fst (snd (sampleMemory e2 name pid)) = fst (snd (sampleMemory e1 name pid))"
  shows "fst (nextStatus e2 name pid (fst (nextStatus e1 name pid r)))
           = fst (nextStatus e1 name pid r)"
proof -
  let ?r1 = "fst (nextStatus e1 name pid r)"
  let ?r2 = "fst (nextStatus e2 name pid ?r1)"
  have "MemoryStats ?r2 = MemoryStats ?r1"
    by (simp add: nextStatus_stats [of e2] assms) (simp add: nextStatus_stats [of e1])
  moreover have "Name ?r2 = Name ?r1" "CurrentPID ?r2 = CurrentPID ?r1"
    "Status ?r2 = Status ?r1" "CurrentMemory ?r2 = CurrentMemory ?r1"
    "PreviousPID ?r2 = PreviousPID ?r1" "LastChange ?r2 = LastChange ?r1"
    by (simp_all add: nextStatus_fields assms)
  ultimately show ?thesis by simp
qed

text \<open>
  A record is stored; two observations in a row find the same PID and the same memory
  sample, at any two times; the reads succeed and the first write succeeds. Then the record
  stored after the second observation is the record that the first stored, equal in every
  field.
\<close>

lemma reobservation_with_reads:
  assumes "stored db (ProcName proc) = Some (Encoded r)"
    and "getProcessPID e1 = Inr pid" and "getProcessPID e2 = Inr pid"
    and "sampledMemory e2 = sampledMemory e1"
    and "\<not> get_down e1" and "\<not> get_down e2" and "\<not> set_down e1"
  shows "stored (fst (updateProcStatus e2 proc (updateProcStatus e1 proc (db, lg)))) (ProcName proc)
           = stored (fst (updateProcStatus e1 proc (db, lg))) (ProcName proc)
       \<and> stored (fst (updateProcStatus e1 proc (db, lg))) (ProcName proc)
           = Some (Encoded (fst (nextStatus e1 (ProcName proc) pid r)))"
proof -
  let ?n = "ProcName proc"
  let ?st1 = "updateProcStatus e1 proc (db, lg)"
  have first: "stored (fst ?st1) ?n = Some (Encoded (fst (nextStatus e1 ?n pid r)))"
    using assms by (simp add: stored_updateProcStatus getProcStatus_stored)
  have same: "fst (snd (sampleMemory e2 ?n pid)) = fst (snd (sampleMemory e1 ?n pid))"
    using assms by (simp add: sampleMemory_sampled)
  have "stored (fst (updateProcStatus e2 proc ?st1)) ?n
          = Some (Encoded (fst (nextStatus e1 ?n pid r)))"
    using assms first
    by (simp add: stored_updateProcStatus getProcStatus_stored nextStatus_twice [OF same])
  then show ?thesis using first by simp
qed

text \<open>
  C6. The property: observing the same sample twice in a row stores, the second time, a
  record equal in every field to the one stored the first time. The code at an input that
  breaks it: the record \<open>history\<close> is stored for \<^verbatim>\<open>nginx\<close>; two observations find PID 5678
  and 5242880 bytes. The first reads the record and stores previous PID 4321, time of last
  change 603, minimum 5242880 and maximum 20971520. In the second the read of Redis fails and
  the write succeeds: \<^verbatim>\<open>getProcStatus\<close> returns the made-up record (line 90 tests only
  \<^verbatim>\<open>err != nil\<close>), and the call stores previous PID 0, time of last change 703 and minimum
  and maximum 5242880, a record different from the first.
\<close>

theorem failed_read_breaks_reobservation:
  "stored (fst (updateProcStatus (sample_at 600 5678 5242880) nginx
        ([process_key ''nginx'' \<mapsto> Encoded history], []))) ''nginx''
     = Some (Encoded
         \<lparr>Name = ''nginx'', CurrentPID = 5678, PreviousPID = Some 4321, Status = ''up'',
          LastChange = 603,
          MemoryStats = \<lparr>MinMemory = 5242880, MaxMemory = 20971520,
                         MinTimestamp = 604, MaxTimestamp = 500\<rparr>,
          CurrentMemory = 5242880\<rparr>)
   \<and> stored (fst (updateProcStatus ((sample_at 700 5678 5242880)\<lparr>get_down := True\<rparr>) nginx
        (updateProcStatus (sample_at 600 5678 5242880) nginx
           ([process_key ''nginx'' \<mapsto> Encoded history], [])))) ''nginx''
     = Some (Encoded
         \<lparr>Name = ''nginx'', CurrentPID = 5678, PreviousPID = Some 0, Status = ''up'',
          LastChange = 703,
          MemoryStats = \<lparr>MinMemory = 5242880, MaxMemory = 5242880,
                         MinTimestamp = 704, MaxTimestamp = 704\<rparr>,
          CurrentMemory = 5242880\<rparr>)
   \<and> stored (fst (updateProcStatus ((sample_at 700 5678 5242880)\<lparr>get_down := True\<rparr>) nginx
        (updateProcStatus (sample_at 600 5678 5242880) nginx
           ([process_key ''nginx'' \<mapsto> Encoded history], [])))) ''nginx''
     \<noteq> stored (fst (updateProcStatus (sample_at 600 5678 5242880) nginx
        ([process_key ''nginx'' \<mapsto> Encoded history], []))) ''nginx''"
  by (simp add: updateProcStatus_def getProcStatus_def GetProcessStatus_def
      stored_def unknownStatus_def nextStatus_def sampleMemory_def pidChange_def
      memoryUpdate_def minUpdate_def maxUpdate_def json_Marshal_def UpdateProcessStatus_def
      nginx_def history_def sample_at_def)


subsection \<open>The previous record of an observation\<close>

lemma getProcStatus_cases:
  "getProcStatus e db name =
     (if get_down e then Inr (unknownStatus e name)
      else case stored db name of
             None \<Rightarrow> Inr (unknownStatus e name)
           | Some (Encoded r) \<Rightarrow> Inr r
           | Some Malformed \<Rightarrow> Inl StatusParseError)"
  by (simp add: getProcStatus_def GetProcessStatus_def stored_def
      split: option.splits payload.splits)

lemma updateProcStatus_abandoned:
  "getProcStatus e db (ProcName proc) = Inl err \<Longrightarrow> fst (updateProcStatus e proc (db, lg)) = db"
  by (simp add: updateProcStatus_def split: sum.splits)

text \<open>
  C10, as it is stated, fails on two inputs. The record that \<^verbatim>\<open>getProcStatus\<close> makes up
  does not have zero timestamps: its three timestamps are readings of the clock (here 1000,
  1001 and 1002), and the first observation of a process that does not run stores them. And
  the made-up record is not used only when no record is stored: with a record stored for
  \<^verbatim>\<open>nginx\<close> and a read that fails, \<^verbatim>\<open>getProcStatus\<close> returns the made-up record, which is
  not the stored one.
\<close>

theorem implicit_record_counterexample:
  "getProcStatus (sample_at 1000 0 0) Map.empty ''nginx''
     = Inr \<lparr>Name = ''nginx'', CurrentPID = 0, PreviousPID = None, Status = ''unknown'',
            LastChange = 1000,
            MemoryStats = \<lparr>MinMemory = 0, MaxMemory = 0,
                           MinTimestamp = 1001, MaxTimestamp = 1002\<rparr>,
            CurrentMemory = 0\<rparr>
   \<and> stored (fst (updateProcStatus (sample_at 1000 0 0) nginx (Map.empty, []))) ''nginx''
     = Some (Encoded
         \<lparr>Name = ''nginx'', CurrentPID = 0, PreviousPID = None, Status = ''down'',
          LastChange = 1000,
          MemoryStats = \<lparr>MinMemory = 0, MaxMemory = 0,
                         MinTimestamp = 1001, MaxTimestamp = 1002\<rparr>,
          CurrentMemory = 0\<rparr>)
   \<and> stored [process_key ''nginx'' \<mapsto> Encoded history] ''nginx'' = Some (Encoded history)
   \<and> getProcStatus read_fails [process_key ''nginx'' \<mapsto> Encoded history] ''nginx''
     = Inr (unknownStatus read_fails ''nginx'')
   \<and> unknownStatus read_fails ''nginx'' \<noteq> history"
  by (simp add: updateProcStatus_def getProcStatus_def GetProcessStatus_def stored_def
      unknownStatus_def nextStatus_def sampleMemory_def pidChange_def memoryUpdate_def
      minUpdate_def maxUpdate_def json_Marshal_def UpdateProcessStatus_def
      nginx_def history_def read_fails_def sample_at_def)

text \<open>
  C10, amended: for an observation whose read of Redis does not fail. The record made up
  (status \<^verbatim>\<open>unknown\<close>, PID 0, no previous PID, minimum and maximum 0, current memory 0, the
  three timestamps set to readings of the clock) is the previous record when no record is
  stored. When a record is stored and can be decoded, that record is the previous record, and
  a call that found a PID and whose write succeeds stores the record computed from it. When
  the stored text cannot be decoded, \<^verbatim>\<open>getProcStatus\<close> returns an error and the call leaves
  the database as it is.
\<close>

theorem previous_record_of_observation:
  assumes "\<not> get_down e"
  shows "(stored db (ProcName proc) = None \<longrightarrow>
            getProcStatus e db (ProcName proc)
              = Inr \<lparr>Name = ProcName proc, CurrentPID = 0, PreviousPID = None,
                     Status = ''unknown'', LastChange = now_unknown_change e,
                     MemoryStats = \<lparr>MinMemory = 0, MaxMemory = 0,
                                    MinTimestamp = now_unknown_min e,
                                    MaxTimestamp = now_unknown_max e\<rparr>,
                     CurrentMemory = 0\<rparr>)
       \<and> (stored db (ProcName proc) = Some (Encoded r) \<longrightarrow>
            getProcStatus e db (ProcName proc) = Inr r
          \<and> (getProcessPID e = Inr pid \<and> \<not> set_down e \<longrightarrow>
               stored (fst (updateProcStatus e proc (db, lg))) (ProcName proc)
                 = Some (Encoded (fst (nextStatus e (ProcName proc) pid r)))))
       \<and> (stored db (ProcName proc) = Some Malformed \<longrightarrow>
            getProcStatus e db (ProcName proc) = Inl StatusParseError
          \<and> fst (updateProcStatus e proc (db, lg)) = db)"
proof (intro conjI impI)
  assume "stored db (ProcName proc) = None"
  with assms show "getProcStatus e db (ProcName proc)
              = Inr \<lparr>Name = ProcName proc, CurrentPID = 0, PreviousPID = None,
                     Status = ''unknown'', LastChange = now_unknown_change e,
                     MemoryStats = \<lparr>MinMemory = 0, MaxMemory = 0,
                                    MinTimestamp = now_unknown_min e,
                                    MaxTimestamp = now_unknown_max e\<rparr>,
                     CurrentMemory = 0\<rparr>"
    by (simp add: getProcStatus_absent unknownStatus_def)
next
  assume r: "stored db (ProcName proc) = Some (Encoded r)"
  with assms show g: "getProcStatus e db (ProcName proc) = Inr r"
    by (simp add: getProcStatus_stored)
  assume "getProcessPID e = Inr pid \<and> \<not> set_down e"
  with g show "stored (fst (updateProcStatus e proc (db, lg))) (ProcName proc)
                 = Some (Encoded (fst (nextStatus e (ProcName proc) pid r)))"
    by (simp add: stored_updateProcStatus)
next
  assume "stored db (ProcName proc) = Some Malformed"
  with assms show m: "getProcStatus e db (ProcName proc) = Inl StatusParseError"
    by (simp add: getProcStatus_malformed)
  then show "fst (updateProcStatus e proc (db, lg)) = db"
    by (rule updateProcStatus_abandoned)
qed

theorem previous_record_of_observation_witness:
  "getProcStatus (sample_at 1000 4321 15728640) Map.empty ''nginx''
     = Inr \<lparr>Name = ''nginx'', CurrentPID = 0, PreviousPID = None, Status = ''unknown'',
            LastChange = 1000,
            MemoryStats = \<lparr>MinMemory = 0, MaxMemory = 0,
                           MinTimestamp = 1001, MaxTimestamp = 1002\<rparr>,
            CurrentMemory = 0\<rparr>
   \<and> getProcStatus (sample_at 1000 4321 15728640) [process_key ''nginx'' \<mapsto> Encoded history]
        ''nginx'' = Inr history
   \<and> stored (fst (updateProcStatus (sample_at 1000 4321 15728640) nginx
                    ([process_key ''nginx'' \<mapsto> Encoded history], []))) ''nginx''
     = Some (Encoded
         \<lparr>Name = ''nginx'', CurrentPID = 4321, PreviousPID = Some 0, Status = ''up'',
          LastChange = 103,
          MemoryStats = \<lparr>MinMemory = 10485760, MaxMemory = 20971520,
                         MinTimestamp = 104, MaxTimestamp = 500\<rparr>,
          CurrentMemory = 15728640\<rparr>)
   \<and> getProcStatus (sample_at 1000 4321 15728640) [process_key ''nginx'' \<mapsto> Malformed]
        ''nginx'' = Inl StatusParseError
   \<and> fst (updateProcStatus (sample_at 1000 4321 15728640) nginx
             ([process_key ''nginx'' \<mapsto> Malformed], []))
     = [process_key ''nginx'' \<mapsto> Malformed]"
proof -
  let ?e = "sample_at 1000 4321 15728640"
  have n: "ProcName nginx = ''nginx''" by (simp add: nginx_def)
  have up: "\<not> get_down ?e" by (simp add: sample_at_def)
  have w: "getProcessPID ?e = Inr 4321 \<and> \<not> set_down ?e" by (simp add: sample_at_def)
  have clock: "now_unknown_change ?e = 1000" "now_unknown_min ?e = 1001"
    "now_unknown_max ?e = 1002"
    by (simp_all add: sample_at_def)
  have next1: "fst (nextStatus ?e ''nginx'' 4321 history)
     = \<lparr>Name = ''nginx'', CurrentPID = 4321, PreviousPID = Some 0, Status = ''up'',
          LastChange = 103,
          MemoryStats = \<lparr>MinMemory = 10485760, MaxMemory = 20971520,
                         MinTimestamp = 104, MaxTimestamp = 500\<rparr>,
          CurrentMemory = 15728640\<rparr>"
    by (simp add: nextStatus_def sampleMemory_def pidChange_def memoryUpdate_def
        minUpdate_def maxUpdate_def sample_at_def history_def)
  have s0: "stored Map.empty (ProcName nginx) = None" by (simp add: stored_def)
  have s1: "stored [process_key ''nginx'' \<mapsto> Encoded history] (ProcName nginx)
              = Some (Encoded history)"
    by (simp add: stored_def n)
  have s2: "stored [process_key ''nginx'' \<mapsto> Malformed] (ProcName nginx) = Some Malformed"
    by (simp add: stored_def n)
  from previous_record_of_observation [OF up, of Map.empty nginx] s0
  have a: "getProcStatus ?e Map.empty ''nginx''
     = Inr \<lparr>Name = ''nginx'', CurrentPID = 0, PreviousPID = None, Status = ''unknown'',
            LastChange = 1000,
            MemoryStats = \<lparr>MinMemory = 0, MaxMemory = 0,
                           MinTimestamp = 1001, MaxTimestamp = 1002\<rparr>,
            CurrentMemory = 0\<rparr>"
    by (simp add: n clock)
  from previous_record_of_observation
         [OF up, of "[process_key ''nginx'' \<mapsto> Encoded history]" nginx history 4321 "[]"] s1 w
  have b: "getProcStatus ?e [process_key ''nginx'' \<mapsto> Encoded history] ''nginx'' = Inr history"
    and c: "stored (fst (updateProcStatus ?e nginx
                    ([process_key ''nginx'' \<mapsto> Encoded history], []))) ''nginx''
              = Some (Encoded (fst (nextStatus ?e ''nginx'' 4321 history)))"
    by (simp_all add: n)
  from previous_record_of_observation
         [OF up, of "[process_key ''nginx'' \<mapsto> Malformed]" nginx _ _ "[]"] s2
  have d: "getProcStatus ?e [process_key ''nginx'' \<mapsto> Malformed] ''nginx''
             = Inl StatusParseError"
    and e: "fst (updateProcStatus ?e nginx ([process_key ''nginx'' \<mapsto> Malformed], []))
             = [process_key ''nginx'' \<mapsto> Malformed]"
    by (simp_all add: n)
  from a b c d e show ?thesis by (simp add: next1)
qed


text \<open>
  When the read fails, \<^verbatim>\<open>getProcStatus\<close> returns the made-up record as well: line 90 tests
  \<^verbatim>\<open>err != nil\<close> and does not tell \<^verbatim>\<open>redis.Nil\<close> from another error. Here a record with
  its history is stored for \<^verbatim>\<open>nginx\<close>, the process still runs under the stored PID 4321, the
  read fails and the write succeeds: the call logs that the process has started and stores a
  record whose time of last change is the time of this call and whose minimum and maximum are
  the present sample. The stored minimum 10485760, the maximum 20971520 and the time of last
  change 103 are gone.
\<close>

lemma failed_read_replaces_history:
  "stored [process_key ''nginx'' \<mapsto> Encoded history] ''nginx'' = Some (Encoded history)
   \<and> getProcStatus read_fails [process_key ''nginx'' \<mapsto> Encoded history] ''nginx''
       = Inr (unknownStatus read_fails ''nginx'')
   \<and> stored (fst (updateProcStatus read_fails nginx
                     ([process_key ''nginx'' \<mapsto> Encoded history], []))) ''nginx''
       = Some (Encoded
           \<lparr>Name = ''nginx'', CurrentPID = 4321, PreviousPID = Some 0, Status = ''up'',
            LastChange = 1003,
            MemoryStats = \<lparr>MinMemory = 15728640, MaxMemory = 15728640,
                           MinTimestamp = 1004, MaxTimestamp = 1004\<rparr>,
            CurrentMemory = 15728640\<rparr>)
   \<and> snd (updateProcStatus read_fails nginx
                     ([process_key ''nginx'' \<mapsto> Encoded history], []))
       = [(INFO, ProcessStarted ''nginx'' 4321),
          (INFO, NewMinimumMemory ''nginx'' 15728640),
          (INFO, NewMaximumMemory ''nginx'' 15728640),
          (INFO, StatusLine ''nginx'' ''up'' 4321 15728640)]"
  by (simp add: updateProcStatus_def getProcStatus_def GetProcessStatus_def stored_def
      unknownStatus_def nextStatus_def sampleMemory_def pidChange_def memoryUpdate_def
      minUpdate_def maxUpdate_def json_Marshal_def UpdateProcessStatus_def
      nginx_def history_def read_fails_def sample_at_def)

subsection \<open>Hardware verdicts\<close>

text \<open>The verdict and the error of \<^verbatim>\<open>getStatus\<close>, for each kind of unit.\<close>

lemma npu_getStatus_result:
  "fst (npu_getStatus e (pr, tp, bu, pu) n st) =
     (if \<not> npu_isPresent n
        then (FruStatusRed, Some (''NPU '' @ itoa (npu_instance n) @ '' not present''))
      else if hw_set_down e
        then (FruStatusRed, Some (''failed to update NPU '' @ itoa (npu_instance n) @ '' metrics''))
      else if bu > 95 \<or> pu > 95 then (FruStatusRed, None)
      else if bu > 80 \<or> pu > 85 then (FruStatusYellow, None)
      else (FruStatusGreen, None))"
  by (cases st)
     (simp add: npu_getStatus_def npu_updateMetrics_def json_MarshalMetrics_def Let_def)

lemma psu_getStatus_result:
  "fst (psu_getStatus e (v, c, w) p st) =
     (if \<not> psu_isPresent p
        then (FruStatusRed, Some (''PSU '' @ itoa (psu_instance p) @ '' not present''))
      else if hw_set_down e
        then (FruStatusRed, Some (''failed to update PSU '' @ itoa (psu_instance p) @ '' metrics''))
      else if v < 10.8 \<or> v > 13.2 then (FruStatusRed, None)
      else if w > 800 then (FruStatusYellow, None)
      else (FruStatusGreen, None))"
  by (cases st)
     (simp add: psu_getStatus_def psu_updateMetrics_def json_MarshalMetrics_def Let_def)

lemma fan_getStatus_result:
  "fst (fan_getStatus e (sp, du) f st) =
     (if \<not> fan_isPresent f
        then (FruStatusRed, Some (''fan '' @ itoa (fan_instance f) @ '' not present''))
      else if hw_set_down e
        then (FruStatusRed, Some (''failed to update fan '' @ itoa (fan_instance f) @ '' metrics''))
      else if sp < 100 then (FruStatusRed, None)
      else if du > 90 then (FruStatusYellow, None)
      else (FruStatusGreen, None))"
  by (cases st)
     (simp add: fan_getStatus_def fan_updateMetrics_def json_MarshalMetrics_def Let_def)

text \<open>With the values that the source assigns, a present unit is green when Redis answers.\<close>

lemma example_readings_green:
  "\<not> hw_set_down e \<Longrightarrow>
   fst (npu_getStatus e npu_example (NewNPU nm i) st) = (FruStatusGreen, None)
   \<and> fst (psu_getStatus e psu_example (NewPSU nm i) st) = (FruStatusGreen, None)
   \<and> fst (fan_getStatus e fan_example (NewFan nm i) st) = (FruStatusGreen, None)"
  by (simp add: npu_getStatus_result psu_getStatus_result fan_getStatus_result
      npu_example_def psu_example_def fan_example_def NewNPU_def NewPSU_def NewFan_def)


text \<open>
  C7. A present unit, Redis answering. For every reading the verdict is the one of the
  table, the CRITICAL condition tested first and every comparison strict: a power supply is
  CRITICAL when the voltage is below 10.8 or above 13.2, else WARNING when the power is above
  800, else OK; a fan is CRITICAL when the speed is below 100, else WARNING when the duty is
  above 90, else OK; a network processor is CRITICAL when buffer or processor usage is above 95,
  else WARNING when buffer usage is above 80 or processor usage above 85, else OK; and no error
  is returned. In particular, with the other metric in its normal range: 800 W is OK and
  800.01 W is WARNING; 100 RPM is OK and 99 RPM is CRITICAL; buffer usage 96 is CRITICAL, 85 is
  WARNING, and 50 with processor usage 50 is OK.
\<close>

theorem severity_thresholds:
  assumes "npu_isPresent n" and "psu_isPresent p" and "fan_isPresent f" and "\<not> hw_set_down e"
  shows "fst (psu_getStatus e (v, c, w) p st)
           = (if v < 10.8 \<or> 13.2 < v then FruStatusRed
              else if 800 < w then FruStatusYellow else FruStatusGreen, None)
       \<and> fst (fan_getStatus e (sp, du) f st)
           = (if sp < 100 then FruStatusRed
              else if 90 < du then FruStatusYellow else FruStatusGreen, None)
       \<and> fst (npu_getStatus e (pr, tp, bu, pu) n st)
           = (if 95 < bu \<or> 95 < pu then FruStatusRed
              else if 80 < bu \<or> 85 < pu then FruStatusYellow else FruStatusGreen, None)
       \<and> (10.8 \<le> v \<and> v \<le> 13.2 \<longrightarrow>
            fst (psu_getStatus e (v, c, 800) p st) = (FruStatusGreen, None)
          \<and> fst (psu_getStatus e (v, c, 800.01) p st) = (FruStatusYellow, None))
       \<and> (du \<le> 90 \<longrightarrow> fst (fan_getStatus e (100, du) f st) = (FruStatusGreen, None))
       \<and> fst (fan_getStatus e (99, du) f st) = (FruStatusRed, None)
       \<and> fst (npu_getStatus e (pr, tp, 96, pu) n st) = (FruStatusRed, None)
       \<and> (pu \<le> 95 \<longrightarrow> fst (npu_getStatus e (pr, tp, 85, pu) n st) = (FruStatusYellow, None))
       \<and> fst (npu_getStatus e (pr, tp, 50, 50) n st) = (FruStatusGreen, None)"
  using assms
  by (simp add: npu_getStatus_result psu_getStatus_result fan_getStatus_result)

theorem severity_thresholds_witness:
  "fst (psu_getStatus redis_up (12, 50, 800) (NewPSU ''PSU'' 0) (Map.empty, []))
      = (FruStatusGreen, None)
   \<and> fst (psu_getStatus redis_up (12, 50, 800.01) (NewPSU ''PSU'' 0) (Map.empty, []))
      = (FruStatusYellow, None)
   \<and> fst (psu_getStatus redis_up (14, 50, 900) (NewPSU ''PSU'' 0) (Map.empty, []))
      = (FruStatusRed, None)
   \<and> fst (fan_getStatus redis_up (100, 60) (NewFan ''Fan'' 0) (Map.empty, []))
      = (FruStatusGreen, None)
   \<and> fst (fan_getStatus redis_up (100, 91) (NewFan ''Fan'' 0) (Map.empty, []))
      = (FruStatusYellow, None)
   \<and> fst (fan_getStatus redis_up (99, 60) (NewFan ''Fan'' 0) (Map.empty, []))
      = (FruStatusRed, None)
   \<and> fst (npu_getStatus redis_up (1000000, 40, 96, 10) (NewNPU ''NPU'' 0) (Map.empty, []))
      = (FruStatusRed, None)
   \<and> fst (npu_getStatus redis_up (1000000, 40, 85, 10) (NewNPU ''NPU'' 0) (Map.empty, []))
      = (FruStatusYellow, None)
   \<and> fst (npu_getStatus redis_up (1000000, 40, 50, 86) (NewNPU ''NPU'' 0) (Map.empty, []))
      = (FruStatusYellow, None)
   \<and> fst (npu_getStatus redis_up (1000000, 40, 50, 50) (NewNPU ''NPU'' 0) (Map.empty, []))
      = (FruStatusGreen, None)"
proof -
  have present: "npu_isPresent (NewNPU ''NPU'' 0)" "psu_isPresent (NewPSU ''PSU'' 0)"
    "fan_isPresent (NewFan ''Fan'' 0)" "\<not> hw_set_down redis_up"
    by (simp_all add: NewNPU_def NewPSU_def NewFan_def redis_up_def)
  note t = severity_thresholds [OF present]
  from t [where v = 12 and c = 50 and w = 800 and st = "(Map.empty, [])" and sp = 100
            and du = 60 and pr = 1000000 and tp = 40 and bu = 96 and pu = 10]
       t [where v = 12 and c = 50 and w = "800.01" and st = "(Map.empty, [])" and sp = 100
            and du = 91 and pr = 1000000 and tp = 40 and bu = 85 and pu = 10]
       t [where v = 14 and c = 50 and w = 900 and st = "(Map.empty, [])" and sp = 99
            and du = 60 and pr = 1000000 and tp = 40 and bu = 50 and pu = 86]
       t [where v = 12 and c = 50 and w = 800 and st = "(Map.empty, [])" and sp = 99
            and du = 60 and pr = 1000000 and tp = 40 and bu = 50 and pu = 50]
  show ?thesis by simp
qed

subsection \<open>Three ways to be critical\<close>

text \<open>
  C8. For each kind of unit (power supply, network processor, fan): a unit that is not
  present gives CRITICAL with the error ``... not present''; a present unit whose
  \<^verbatim>\<open>updateMetrics\<close> fails gives CRITICAL with the error ``failed to update ... metrics'';
  a present unit whose metrics were updated and are beyond a CRITICAL threshold gives CRITICAL
  with no error. The two error texts differ for all instance numbers, and both differ from
  no error.
\<close>

theorem three_critical_results:
  "(\<not> psu_isPresent p \<longrightarrow>
      fst (psu_getStatus e (v, c, w) p st)
        = (FruStatusRed, Some (''PSU '' @ itoa (psu_instance p) @ '' not present'')))
   \<and> (psu_isPresent p \<and> hw_set_down e \<longrightarrow>
      fst (psu_getStatus e (v, c, w) p st)
        = (FruStatusRed, Some (''failed to update PSU '' @ itoa (psu_instance p) @ '' metrics'')))
   \<and> (psu_isPresent p \<and> \<not> hw_set_down e \<and> (v < 10.8 \<or> 13.2 < v) \<longrightarrow>
      fst (psu_getStatus e (v, c, w) p st) = (FruStatusRed, None))
   \<and> ''PSU '' @ itoa i @ '' not present'' \<noteq> ''failed to update PSU '' @ itoa j @ '' metrics''
   \<and> (\<not> npu_isPresent n \<longrightarrow>
      fst (npu_getStatus e (pr, tp, bu, pu) n st)
        = (FruStatusRed, Some (''NPU '' @ itoa (npu_instance n) @ '' not present'')))
   \<and> (npu_isPresent n \<and> hw_set_down e \<longrightarrow>
      fst (npu_getStatus e (pr, tp, bu, pu) n st)
        = (FruStatusRed, Some (''failed to update NPU '' @ itoa (npu_instance n) @ '' metrics'')))
   \<and> (npu_isPresent n \<and> \<not> hw_set_down e \<and> (95 < bu \<or> 95 < pu) \<longrightarrow>
      fst (npu_getStatus e (pr, tp, bu, pu) n st) = (FruStatusRed, None))
   \<and> ''NPU '' @ itoa i @ '' not present'' \<noteq> ''failed to update NPU '' @ itoa j @ '' metrics''
   \<and> (\<not> fan_isPresent f \<longrightarrow>
      fst (fan_getStatus e (sp, du) f st)
        = (FruStatusRed, Some (''fan '' @ itoa (fan_instance f) @ '' not present'')))
   \<and> (fan_isPresent f \<and> hw_set_down e \<longrightarrow>
      fst (fan_getStatus e (sp, du) f st)
        = (FruStatusRed, Some (''failed to update fan '' @ itoa (fan_instance f) @ '' metrics'')))
   \<and> (fan_isPresent f \<and> \<not> hw_set_down e \<and> sp < 100 \<longrightarrow>
      fst (fan_getStatus e (sp, du) f st) = (FruStatusRed, None))
   \<and> ''fan '' @ itoa i @ '' not present'' \<noteq> ''failed to update fan '' @ itoa j @ '' metrics''"
  by (simp add: npu_getStatus_result psu_getStatus_result fan_getStatus_result)

theorem three_critical_results_witness:
  "fst (psu_getStatus redis_up psu_example ((NewPSU ''PSU'' 1)\<lparr>psu_isPresent := False\<rparr>) (Map.empty, []))
      = (FruStatusRed, Some ''PSU 1 not present'')
   \<and> fst (psu_getStatus (redis_up\<lparr>hw_set_down := True\<rparr>) psu_example (NewPSU ''PSU'' 1) (Map.empty, []))
      = (FruStatusRed, Some ''failed to update PSU 1 metrics'')
   \<and> fst (psu_getStatus redis_up (10, 50, 600) (NewPSU ''PSU'' 1) (Map.empty, []))
      = (FruStatusRed, None)
   \<and> fst (npu_getStatus redis_up npu_example ((NewNPU ''NPU'' 12)\<lparr>npu_isPresent := False\<rparr>) (Map.empty, []))
      = (FruStatusRed, Some ''NPU 12 not present'')
   \<and> fst (npu_getStatus (redis_up\<lparr>hw_set_down := True\<rparr>) npu_example (NewNPU ''NPU'' 12) (Map.empty, []))
      = (FruStatusRed, Some ''failed to update NPU 12 metrics'')
   \<and> fst (npu_getStatus redis_up (1000000, 40, 96, 10) (NewNPU ''NPU'' 12) (Map.empty, []))
      = (FruStatusRed, None)
   \<and> fst (fan_getStatus redis_up fan_example ((NewFan ''Fan'' 3)\<lparr>fan_isPresent := False\<rparr>) (Map.empty, []))
      = (FruStatusRed, Some ''fan 3 not present'')
   \<and> fst (fan_getStatus (redis_up\<lparr>hw_set_down := True\<rparr>) fan_example (NewFan ''Fan'' 3) (Map.empty, []))
      = (FruStatusRed, Some ''failed to update fan 3 metrics'')
   \<and> fst (fan_getStatus redis_up (99, 60) (NewFan ''Fan'' 3) (Map.empty, []))
      = (FruStatusRed, None)"
  using three_critical_results
     [of "(NewPSU ''PSU'' 1)\<lparr>psu_isPresent := False\<rparr>" redis_up 12 50 600 "(Map.empty, [])"
         _ _ "(NewNPU ''NPU'' 12)\<lparr>npu_isPresent := False\<rparr>" 1000000 40 60 70
         "(NewFan ''Fan'' 3)\<lparr>fan_isPresent := False\<rparr>" 2000 60]
    three_critical_results
     [of "NewPSU ''PSU'' 1" "redis_up\<lparr>hw_set_down := True\<rparr>" 12 50 600 "(Map.empty, [])"
         _ _ "NewNPU ''NPU'' 12" 1000000 40 60 70 "NewFan ''Fan'' 3" 2000 60]
    three_critical_results
     [of "NewPSU ''PSU'' 1" redis_up 10 50 600 "(Map.empty, [])"
         _ _ "NewNPU ''NPU'' 12" 1000000 40 96 10 "NewFan ''Fan'' 3" 99 60]
  by (simp add: NewNPU_def NewPSU_def NewFan_def redis_up_def itoa_def digits.simps
      psu_example_def npu_example_def fan_example_def)

subsection \<open>The periodic runner\<close>

lemma Sub_Minute: "Minute \<le> Sub t u \<longleftrightarrow> Minute \<le> t - u"
  by (simp add: Sub_def maxDuration_def minDuration_def Minute_def Second_def)

lemma observed_append: "observed (a @ b) = observed a @ observed b"
  by (induction a) (simp_all split: option.splits)

lemma cycleTimes_append: "cycleTimes (a @ b) = cycleTimes a @ cycleTimes b"
  by (induction a rule: cycleTimes.induct) simp_all

lemma observed_nextStatus: "observed (snd (nextStatus e name pid prev)) = []"
  by (simp add: nextStatus_log observed_append)
     (simp add: sampleMemory_def pidChange_def memoryUpdate_def minUpdate_def maxUpdate_def
        split: sum.splits)

lemma cycleTimes_nextStatus: "cycleTimes (snd (nextStatus e name pid prev)) = []"
  by (simp add: nextStatus_log cycleTimes_append)
     (simp add: sampleMemory_def pidChange_def memoryUpdate_def minUpdate_def maxUpdate_def
        split: sum.splits)

lemma observed_logged: "observed (logged e proc db) = [ProcName proc]"
  by (simp add: logged_cases observed_append observed_nextStatus split: sum.splits)

lemma cycleTimes_logged: "cycleTimes (logged e proc db) = []"
  by (simp add: logged_cases cycleTimes_append cycleTimes_nextStatus split: sum.splits)

lemma checkAll_from:
  "observed (snd (foldl (\<lambda>st (i, proc). updateProcStatus (envs i) proc st) st (enumerate k procs)))
     = observed (snd st) @ map ProcName procs
   \<and> cycleTimes (snd (foldl (\<lambda>st (i, proc). updateProcStatus (envs i) proc st) st (enumerate k procs)))
     = cycleTimes (snd st)"
  by (induction procs arbitrary: st k)
     (simp_all add: updateProcStatus_log observed_append cycleTimes_append
        observed_logged cycleTimes_logged)

lemma observed_checkAll:
  "observed (snd (checkAll envs procs st)) = observed (snd st) @ map ProcName procs"
  by (simp add: checkAll_def checkAll_from)

lemma cycleTimes_checkAll:
  "cycleTimes (snd (checkAll envs procs st)) = cycleTimes (snd st)"
  by (simp add: checkAll_def checkAll_from)

lemma run_stops_at_Done: "run (sel @ Done # rest) s = run (sel @ [Done]) s"
proof (induction sel arbitrary: s)
  case Nil
  show ?case by simp
next
  case (Cons x sel)
  then show ?case by (cases x) simp_all
qed

lemma process_key_inj: "process_key a = process_key b \<longleftrightarrow> a = b"
  by (simp add: process_key_def)

lemma stored_other:
  "name \<noteq> ProcName proc \<Longrightarrow>
   stored (fst (updateProcStatus e proc st)) name = stored (fst st) name"
  by (cases st)
     (simp add: updateProcStatus_def json_Marshal_def UpdateProcessStatus_def stored_def
        process_key_inj split: sum.splits prod.splits)

lemma getProcStatus_depends:
  "stored db name = stored db' name \<Longrightarrow> getProcStatus e db name = getProcStatus e db' name"
  by (simp add: getProcStatus_cases)

lemma stored_own_depends:
  assumes "stored (fst st) (ProcName proc) = stored (fst st') (ProcName proc)"
  shows "stored (fst (updateProcStatus e proc st)) (ProcName proc)
           = stored (fst (updateProcStatus e proc st')) (ProcName proc)"
proof -
  have g: "getProcStatus e (fst st) (ProcName proc) = getProcStatus e (fst st') (ProcName proc)"
    by (rule getProcStatus_depends [OF assms])
  show ?thesis unfolding stored_updateProcStatus g assms by (rule refl)
qed

lemma cycle_other:
  "name \<notin> ProcName ` set ps \<Longrightarrow>
   stored (fst (foldl (\<lambda>st (i, proc). updateProcStatus (envs i) proc st) st (enumerate k ps))) name
     = stored (fst st) name"
  by (induction ps arbitrary: st k) (simp_all add: stored_other)

lemma cycle_own:
  "distinct (map ProcName ps) \<Longrightarrow> j < length ps \<Longrightarrow>
   stored (fst (foldl (\<lambda>st (i, proc). updateProcStatus (envs i) proc st) st (enumerate k ps)))
       (ProcName (ps ! j))
     = stored (fst (updateProcStatus (envs (k + j)) (ps ! j) st)) (ProcName (ps ! j))"
proof (induction ps arbitrary: st k j)
  case Nil
  then show ?case by simp
next
  case (Cons p ps)
  show ?case
  proof (cases j)
    case 0
    from Cons.prems(1) have "ProcName p \<notin> ProcName ` set ps" by simp
    from cycle_other [OF this] 0 show ?thesis by simp
  next
    case (Suc j')
    with Cons.prems have d: "distinct (map ProcName ps)" and j': "j' < length ps"
      and out: "ProcName p \<notin> ProcName ` set ps"
      by auto
    from j' have "ProcName (ps ! j') \<in> ProcName ` set ps" by simp
    with out have ne: "ProcName (ps ! j') \<noteq> ProcName p" by auto
    from stored_other [OF ne]
    have "stored (fst (updateProcStatus (envs k) p st)) (ProcName (ps ! j'))
            = stored (fst st) (ProcName (ps ! j'))" .
    from stored_own_depends [OF this] Cons.IH [OF d j'] Suc show ?thesis by simp
  qed
qed

lemma run_until_Done:
  "run sel s =
     (foldl (\<lambda>s x. case x of Done \<Rightarrow> s | Tick t envs \<Rightarrow> onTick t envs s) s
        (takeWhile (\<lambda>x. x \<noteq> Done) sel),
      Done \<in> set sel)"
proof (induction sel arbitrary: s)
  case Nil
  show ?case by simp
next
  case (Cons x sel)
  then show ?case by (cases x) simp_all
qed

text \<open>
  C9. The ticker has a period of one second (\<open>tickerPeriod\<close>). A tick at time \<open>t\<close>
  runs a cycle exactly when at least 60 periods lie between \<open>lastCheck\<close> and \<open>t\<close>. The
  cycle logs one line ``Running periodic process check'' and calls \<^verbatim>\<open>updateProcStatus\<close>
  for every process of the monitor, once and in order, each call on the database and log that
  the call before left; then \<open>lastCheck\<close> becomes \<open>t\<close>. When the processes have different
  names, the record stored for each of them after the cycle is the one that its own call
  stores. A tick that is not due changes nothing. \<^verbatim>\<open>run\<close> works through the ticks selected
  before the first \<open>Done\<close>, each of them completely, and through nothing else: it has
  returned exactly when \<open>Done\<close> is among the cases selected, and what would be selected
  after \<open>Done\<close> has no effect.
\<close>

theorem scheduler_period_and_stop:
  fixes pr :: PeriodicRunner and db :: redis and lg :: log
  defines "procs \<equiv> processes (monitor pr)"
  shows
   "onTick t envs (pr, db, lg) =
      (if 60 * tickerPeriod \<le> t - lastCheck pr
       then (pr\<lparr>lastCheck := t\<rparr>,
             foldl (\<lambda>st (i, proc). updateProcStatus (envs i) proc st)
               (db, lg @ [(INFO, PeriodicCheck t)]) (enumerate 0 procs))
       else (pr, db, lg))
   \<and> (60 * tickerPeriod \<le> t - lastCheck pr \<longrightarrow>
        cycleTimes (snd (snd (onTick t envs (pr, db, lg)))) = cycleTimes lg @ [t]
      \<and> observed (snd (snd (onTick t envs (pr, db, lg)))) = observed lg @ map ProcName procs
      \<and> (distinct (map ProcName procs) \<longrightarrow>
           (\<forall>i < length procs.
              stored (fst (snd (onTick t envs (pr, db, lg)))) (ProcName (procs ! i))
                = stored (fst (updateProcStatus (envs i) (procs ! i) (db, lg)))
                    (ProcName (procs ! i)))))
   \<and> run sel (pr, db, lg) =
       (foldl (\<lambda>s x. case x of Done \<Rightarrow> s | Tick t envs \<Rightarrow> onTick t envs s) (pr, db, lg)
          (takeWhile (\<lambda>x. x \<noteq> Done) sel),
        Done \<in> set sel)
   \<and> run (sel @ Done # rest) (pr, db, lg) = run (sel @ [Done]) (pr, db, lg)"
proof -
  have p: "60 * tickerPeriod = Minute" by (simp add: tickerPeriod_def Minute_def)
  have tick: "onTick t envs (pr, db, lg) =
      (if 60 * tickerPeriod \<le> t - lastCheck pr
       then (pr\<lparr>lastCheck := t\<rparr>,
             foldl (\<lambda>st (i, proc). updateProcStatus (envs i) proc st)
               (db, lg @ [(INFO, PeriodicCheck t)]) (enumerate 0 procs))
       else (pr, db, lg))"
    by (simp add: p onTick_def Sub_Minute checkAll_def procs_def)
  have c: "60 * tickerPeriod \<le> t - lastCheck pr \<longrightarrow>
      cycleTimes (snd (snd (onTick t envs (pr, db, lg)))) = cycleTimes lg @ [t]
      \<and> observed (snd (snd (onTick t envs (pr, db, lg)))) = observed lg @ map ProcName procs"
    by (simp add: tick checkAll_from cycleTimes_append observed_append)
  have own: "60 * tickerPeriod \<le> t - lastCheck pr \<longrightarrow> distinct (map ProcName procs) \<longrightarrow>
           (\<forall>i < length procs.
              stored (fst (snd (onTick t envs (pr, db, lg)))) (ProcName (procs ! i))
                = stored (fst (updateProcStatus (envs i) (procs ! i) (db, lg)))
                    (ProcName (procs ! i)))"
  proof (intro impI allI)
    fix i
    assume due: "60 * tickerPeriod \<le> t - lastCheck pr" and d: "distinct (map ProcName procs)"
      and i: "i < length procs"
    have "stored (fst (updateProcStatus (envs i) (procs ! i) (db, lg @ [(INFO, PeriodicCheck t)])))
            (ProcName (procs ! i))
          = stored (fst (updateProcStatus (envs i) (procs ! i) (db, lg))) (ProcName (procs ! i))"
      by (rule stored_own_depends) simp
    with cycle_own [OF d i, of envs "(db, lg @ [(INFO, PeriodicCheck t)])" 0] due
    show "stored (fst (snd (onTick t envs (pr, db, lg)))) (ProcName (procs ! i))
                = stored (fst (updateProcStatus (envs i) (procs ! i) (db, lg)))
                    (ProcName (procs ! i))"
      by (simp add: tick)
  qed
  show ?thesis
    using tick c own run_until_Done [of sel "(pr, db, lg)"]
      run_stops_at_Done [of sel rest "(pr, db, lg)"]
    by blast
qed


theorem scheduler_period_and_stop_witness:
  "lastCheck (fst (onTick 60000000000 (\<lambda>i. sample_at 100 4321 4096)
        (NewPeriodicRunner \<lparr>processes = [nginx]\<rparr>, Map.empty, []))) = 60000000000
   \<and> cycleTimes (snd (snd (onTick 60000000000 (\<lambda>i. sample_at 100 4321 4096)
        (NewPeriodicRunner \<lparr>processes = [nginx]\<rparr>, Map.empty, [])))) = [60000000000]
   \<and> observed (snd (snd (onTick 60000000000 (\<lambda>i. sample_at 100 4321 4096)
        (NewPeriodicRunner \<lparr>processes = [nginx]\<rparr>, Map.empty, [])))) = [''nginx'']
   \<and> stored (fst (snd (onTick 60000000000 (\<lambda>i. sample_at 100 4321 4096)
        (NewPeriodicRunner \<lparr>processes = [nginx]\<rparr>, Map.empty, [])))) ''nginx''
     = Some (Encoded
         \<lparr>Name = ''nginx'', CurrentPID = 4321, PreviousPID = Some 0, Status = ''up'',
          LastChange = 103,
          MemoryStats = \<lparr>MinMemory = 4096, MaxMemory = 4096,
                         MinTimestamp = 104, MaxTimestamp = 104\<rparr>,
          CurrentMemory = 4096\<rparr>)
   \<and> onTick 61000000000 (\<lambda>i. sample_at 100 4321 4096)
        (\<lparr>monitor = \<lparr>processes = [nginx]\<rparr>, lastCheck = 60000000000\<rparr>, Map.empty, [])
     = (\<lparr>monitor = \<lparr>processes = [nginx]\<rparr>, lastCheck = 60000000000\<rparr>, Map.empty, [])
   \<and> run [Done, Tick 60000000000 (\<lambda>i. sample_at 100 4321 4096)]
        (NewPeriodicRunner \<lparr>processes = [nginx]\<rparr>, Map.empty, [])
     = ((NewPeriodicRunner \<lparr>processes = [nginx]\<rparr>, Map.empty, []), True)"
proof -
  let ?envs = "\<lambda>i::nat. sample_at 100 4321 4096"
  let ?pr0 = "NewPeriodicRunner \<lparr>processes = [nginx]\<rparr>"
  let ?pr1 = "\<lparr>monitor = \<lparr>processes = [nginx]\<rparr>, lastCheck = 60000000000\<rparr>"
  have procs: "processes (monitor ?pr0) = [nginx]" by (simp add: NewPeriodicRunner_def)
  have due: "60 * tickerPeriod \<le> 60000000000 - lastCheck ?pr0"
    by (simp add: tickerPeriod_def Second_def NewPeriodicRunner_def)
  have notdue: "\<not> 60 * tickerPeriod \<le> 61000000000 - lastCheck ?pr1"
    by (simp add: tickerPeriod_def Second_def)
  note first = scheduler_period_and_stop
      [where t = 60000000000 and pr = ?pr0 and envs = ?envs and db = Map.empty and lg = "[]"
         and sel = "[Done, Tick 60000000000 ?envs]" and rest = "[]"]
  note second = scheduler_period_and_stop
      [where t = 61000000000 and pr = ?pr1 and envs = ?envs and db = Map.empty and lg = "[]"
         and sel = "[]" and rest = "[]"]
  note tick = first [THEN conjunct1]
  note cycle = first [THEN conjunct2, THEN conjunct1, THEN mp, OF due]
  from tick due have a:
    "onTick 60000000000 ?envs (?pr0, Map.empty, []) =
          (?pr0\<lparr>lastCheck := 60000000000\<rparr>,
           foldl (\<lambda>st (i, proc). updateProcStatus (?envs i) proc st)
             (Map.empty, [] @ [(INFO, PeriodicCheck 60000000000)])
             (enumerate 0 (processes (monitor ?pr0))))"
    by simp
  note b = cycle [THEN conjunct1]
  note c = cycle [THEN conjunct2, THEN conjunct1]
  note s = cycle [THEN conjunct2, THEN conjunct2]
  from a have a': "lastCheck (fst (onTick 60000000000 ?envs (?pr0, Map.empty, []))) = 60000000000"
    by simp
  from b have b': "cycleTimes (snd (snd (onTick 60000000000 ?envs (?pr0, Map.empty, []))))
              = [60000000000]"
    by simp
  from c have c': "observed (snd (snd (onTick 60000000000 ?envs (?pr0, Map.empty, []))))
              = [''nginx'']"
    by (simp add: procs) (simp add: nginx_def)
  have one: "stored (fst (updateProcStatus (sample_at 100 4321 4096) nginx (Map.empty, []))) ''nginx''
     = Some (Encoded
         \<lparr>Name = ''nginx'', CurrentPID = 4321, PreviousPID = Some 0, Status = ''up'',
          LastChange = 103,
          MemoryStats = \<lparr>MinMemory = 4096, MaxMemory = 4096,
                         MinTimestamp = 104, MaxTimestamp = 104\<rparr>,
          CurrentMemory = 4096\<rparr>)"
    by (simp add: updateProcStatus_def getProcStatus_def GetProcessStatus_def stored_def
        unknownStatus_def nextStatus_def sampleMemory_def pidChange_def memoryUpdate_def
        minUpdate_def maxUpdate_def json_Marshal_def UpdateProcessStatus_def
        nginx_def sample_at_def)
  have n: "ProcName nginx = ''nginx''" by (simp add: nginx_def)
  from s have "stored (fst (snd (onTick 60000000000 ?envs (?pr0, Map.empty, [])))) (ProcName nginx)
                = stored (fst (updateProcStatus (sample_at 100 4321 4096) nginx (Map.empty, [])))
                    (ProcName nginx)"
    by (simp add: procs)
  with one have s': "stored (fst (snd (onTick 60000000000 ?envs (?pr0, Map.empty, [])))) ''nginx''
     = Some (Encoded
         \<lparr>Name = ''nginx'', CurrentPID = 4321, PreviousPID = Some 0, Status = ''up'',
          LastChange = 103,
          MemoryStats = \<lparr>MinMemory = 4096, MaxMemory = 4096,
                         MinTimestamp = 104, MaxTimestamp = 104\<rparr>,
          CurrentMemory = 4096\<rparr>)"
    by (simp add: n)
  from second [THEN conjunct1] notdue
  have d: "onTick 61000000000 ?envs (?pr1, Map.empty, []) = (?pr1, Map.empty, [])"
    by simp
  from first [THEN conjunct2, THEN conjunct2, THEN conjunct1]
  have e: "run [Done, Tick 60000000000 ?envs] (?pr0, Map.empty, [])
                        = ((?pr0, Map.empty, []), True)"
    by simp
  show ?thesis
    by (intro conjI) (rule a' b' c' s' d e)+
qed


end
